theory Spec2Isabelle
  imports Complex_Main "HOL-Library.Log_Nat"
begin

section \<open>Data model\<close>

text \<open>
  The order routes keep three kinds of state: the Product collection, the Order collection
  and the customer confirmation emails handed to the email service.  Collections are
  modelled as they are used: products are looked up by id only (a partial map), orders are
  queried by several fields (a list in insertion order, \<open>findOne\<close> returning the first
  match).

  Rupee amounts are JavaScript numbers, that is doubles.  An amount is modelled by the
  rational value of the double; where a handler adds, subtracts, multiplies or divides
  amounts, the exact result is rounded to the nearest double (\<open>nearestDouble\<close> below).
  Comparisons and \<open>Math.round\<close> are exact on doubles.

  The Product schema of \<open>models/productModel.js\<close> declares a name, a price and further
  paths the order routes do not read (among them an \<open>outOfStock\<close> flag), and no
  \<open>stock\<close> path; the product routes never write one.  A product document loaded by
  \<open>findById\<close> therefore reads \<open>undefined\<close> for \<open>product.stock\<close>, an assignment to
  it creates a property of the JavaScript object only, and \<open>save\<close> writes the schema
  paths and nothing else.
\<close>

datatype payStatus = PayPending | Paid | Failed | Refunded

datatype ordStatus = Pending | Processing | Shipped | Delivered | Canceled

record product =
  productName :: string
  productPrice :: rat

record orderItem =
  productId :: string
  itemName :: string
  itemPrice :: rat
  quantity :: int

record contact =
  cName :: string
  cEmail :: string
  cPhone :: string

record order =
  oid :: nat
  orderId :: string
  idempotencyKey :: string
  paymentMethod :: string
  paymentStatus :: payStatus
  orderStatus :: ordStatus
  orderItems :: "orderItem list"
  finalTotal :: rat
  transactionId :: "string option"
  merchantTransactionId :: "string option"
  isRegisteredUser :: bool
  userId :: "string option"
  userContact :: "contact option"
  guestContact :: "contact option"
  partialRefunds :: "rat list"
  totalRefunded :: rat
  createdAt :: int

type_synonym products = "string \<rightharpoonup> product"

record store =
  products :: products
  orders :: "order list"
  emails :: "(string \<times> string) list"

text \<open>What a handler hands back: a JSON response with its HTTP status and the fields that
  matter here, a browser redirect, or an exception left to the error middleware.\<close>

datatype response =
    Json nat "(string \<times> string) list"
  | Redirect string
  | Thrown string

fun showOrdStatus :: "ordStatus \<Rightarrow> string" where
  "showOrdStatus Pending = ''Pending''"
| "showOrdStatus Processing = ''Processing''"
| "showOrdStatus Shipped = ''Shipped''"
| "showOrdStatus Delivered = ''Delivered''"
| "showOrdStatus Canceled = ''Canceled''"

text \<open>\<open>Math.round\<close>: the nearest integer, halves rounded towards plus infinity.\<close>

definition mathRound :: "rat \<Rightarrow> int" where
  "mathRound x = \<lfloor>x + 1 / 2\<rfloor>"

text \<open>A JavaScript string is falsy exactly when it is missing or empty.\<close>

fun truthy :: "string option \<Rightarrow> bool" where
  "truthy None = False"
| "truthy (Some v) = (v \<noteq> [])"

subsection \<open>Queries and updates on the Order collection\<close>

definition findOne :: "(order \<Rightarrow> bool) \<Rightarrow> store \<Rightarrow> order option" where
  "findOne P s = find P (orders s)"

text \<open>\<open>Order.findByIdAndUpdate(id, {orderStatus, paymentStatus})\<close>.\<close>

definition setStatusById :: "nat \<Rightarrow> ordStatus \<Rightarrow> payStatus \<Rightarrow> store \<Rightarrow> store" where
  "setStatusById i os ps s =
     s\<lparr>orders := map (\<lambda>d. if oid d = i then d\<lparr>orderStatus := os, paymentStatus := ps\<rparr> else d)
                      (orders s)\<rparr>"

text \<open>\<open>order.save()\<close> of a document loaded earlier: the stored document with that \<open>_id\<close>
  is replaced.\<close>

definition replaceOrder :: "order \<Rightarrow> store \<Rightarrow> store" where
  "replaceOrder d' s = s\<lparr>orders := map (\<lambda>d. if oid d = oid d' then d' else d) (orders s)\<rparr>"

text \<open>The Order schema: \<open>paymentMethod\<close> is an enum of the two gateways, the registered or
  the guest contact fields are required according to \<open>isRegisteredUser\<close>, and \<open>orderId\<close>
  and \<open>idempotencyKey\<close> carry unique indexes.  A document that fails is rejected by
  \<open>save\<close> with an exception.  The address and price fields, which no handler branches
  on, are taken as present.\<close>

definition contactFilled :: "contact option \<Rightarrow> bool" where
  "contactFilled c = (case c of None \<Rightarrow> False
     | Some k \<Rightarrow> cName k \<noteq> [] \<and> cEmail k \<noteq> [] \<and> cPhone k \<noteq> [])"

definition schemaValid :: "order \<Rightarrow> bool" where
  "schemaValid d =
     ((paymentMethod d = ''razorpay'' \<or> paymentMethod d = ''phonepe'') \<and>
      orderId d \<noteq> [] \<and> idempotencyKey d \<noteq> [] \<and>
      (if isRegisteredUser d then userId d \<noteq> None \<and> contactFilled (userContact d)
       else contactFilled (guestContact d)))"

definition uniqueFree :: "order \<Rightarrow> store \<Rightarrow> bool" where
  "uniqueFree d s =
     (find (\<lambda>x. orderId x = orderId d \<or> idempotencyKey x = idempotencyKey d) (orders s) = None)"

definition insertOrder :: "order \<Rightarrow> store \<Rightarrow> store option" where
  "insertOrder d s =
     (if schemaValid d \<and> uniqueFree d s
      then Some (s\<lparr>orders := orders s @ [d\<lparr>oid := length (orders s)\<rparr>]\<rparr>)
      else None)"

section \<open>Numbers\<close>

text \<open>Rounding to the nearest double, ties to even, on the range of the normal doubles
  (the amounts here are rupees): the binary exponent of the value, the 53-bit significand
  rounded half to even, and the value put together again.\<close>

definition roundHalfEven :: "rat \<Rightarrow> int" where
  "roundHalfEven x =
     (if x - of_int \<lfloor>x\<rfloor> < 1 / 2 then \<lfloor>x\<rfloor>
      else if x - of_int \<lfloor>x\<rfloor> > 1 / 2 then \<lfloor>x\<rfloor> + 1
      else if even \<lfloor>x\<rfloor> then \<lfloor>x\<rfloor> else \<lfloor>x\<rfloor> + 1)"

definition pow2 :: "int \<Rightarrow> rat" where
  "pow2 e = (if 0 \<le> e then 2 ^ nat e else 1 / 2 ^ nat (- e))"

text \<open>The exponent \<open>e\<close> with \<open>2 ^ e \<le> a < 2 ^ (e + 1)\<close>, for a positive \<open>a\<close>.\<close>

definition binExp :: "rat \<Rightarrow> int" where
  "binExp a =
     (if 1 \<le> a then int (floorlog 2 (nat \<lfloor>a\<rfloor>)) - 1
      else if a * 2 ^ (floorlog 2 (nat \<lfloor>1 / a\<rfloor>) - 1) = 1
      then 1 - int (floorlog 2 (nat \<lfloor>1 / a\<rfloor>))
      else - int (floorlog 2 (nat \<lfloor>1 / a\<rfloor>)))"

definition nearestDouble :: "rat \<Rightarrow> rat" where
  "nearestDouble x =
     (if x = 0 then 0
      else sgn x * of_int (roundHalfEven (\<bar>x\<bar> / pow2 (binExp \<bar>x\<bar> - 52))) *
           pow2 (binExp \<bar>x\<bar> - 52))"

text \<open>The four operations of JavaScript on two doubles.\<close>

definition jsAdd :: "rat \<Rightarrow> rat \<Rightarrow> rat" where
  "jsAdd a b = nearestDouble (a + b)"

definition jsSub :: "rat \<Rightarrow> rat \<Rightarrow> rat" where
  "jsSub a b = nearestDouble (a - b)"

definition jsMul :: "rat \<Rightarrow> rat \<Rightarrow> rat" where
  "jsMul a b = nearestDouble (a * b)"

definition jsDiv :: "rat \<Rightarrow> rat \<Rightarrow> rat" where
  "jsDiv a b = nearestDouble (a / b)"

section \<open>Product documents and the stock loops\<close>

text \<open>The value of \<open>product.stock\<close> on a document in memory, with the three operations
  the handlers apply to it: \<open>stock < quantity\<close>, \<open>stock += quantity\<close> and
  \<open>stock -= quantity\<close>.  A comparison with \<open>undefined\<close> or \<open>NaN\<close> is false, and
  arithmetic on them gives \<open>NaN\<close>.\<close>

datatype jsNumber = Undefined | NaN | Number int

fun jsLess :: "jsNumber \<Rightarrow> int \<Rightarrow> bool" where
  "jsLess (Number n) q = (n < q)"
| "jsLess Undefined q = False"
| "jsLess NaN q = False"

fun jsPlus :: "jsNumber \<Rightarrow> int \<Rightarrow> jsNumber" where
  "jsPlus (Number n) q = Number (n + q)"
| "jsPlus Undefined q = NaN"
| "jsPlus NaN q = NaN"

fun jsMinus :: "jsNumber \<Rightarrow> int \<Rightarrow> jsNumber" where
  "jsMinus (Number n) q = Number (n - q)"
| "jsMinus Undefined q = NaN"
| "jsMinus NaN q = NaN"

text \<open>A product document in memory: the stored schema paths and the \<open>stock\<close> property of
  the object.  \<open>Product.findById\<close> yields the stored paths, with \<open>stock\<close> undefined;
  \<open>product.save()\<close> stores the schema paths of the document.\<close>

record productDoc =
  docFields :: product
  docStock :: jsNumber

definition findById :: "products \<Rightarrow> string \<Rightarrow> productDoc option" where
  "findById ps pid = map_option (\<lambda>p. \<lparr>docFields = p, docStock = Undefined\<rparr>) (ps pid)"

definition saveProduct :: "string \<Rightarrow> productDoc \<Rightarrow> products \<Rightarrow> products" where
  "saveProduct pid doc ps = ps(pid \<mapsto> docFields doc)"

text \<open>\<open>restoreStock(orderItems)\<close>: for each item, load the product; when it exists add the
  quantity to \<open>product.stock\<close> and save, otherwise go on to the next item.\<close>

fun restoreStock :: "orderItem list \<Rightarrow> products \<Rightarrow> products" where
  "restoreStock [] ps = ps"
| "restoreStock (it # its) ps =
     (case findById ps (productId it) of
        None \<Rightarrow> restoreStock its ps
      | Some doc \<Rightarrow>
          restoreStock its
            (saveProduct (productId it) (doc\<lparr>docStock := jsPlus (docStock doc) (quantity it)\<rparr>) ps))"

text \<open>The deduction loop of the PhonePe branch of create-order: no stock check, a missing
  product is passed over.\<close>

fun deductStock :: "orderItem list \<Rightarrow> products \<Rightarrow> products" where
  "deductStock [] ps = ps"
| "deductStock (it # its) ps =
     (case findById ps (productId it) of
        None \<Rightarrow> deductStock its ps
      | Some doc \<Rightarrow>
          deductStock its
            (saveProduct (productId it) (doc\<lparr>docStock := jsMinus (docStock doc) (quantity it)\<rparr>) ps))"

section \<open>Order creation\<close>

record cartItem =
  cProductId :: string
  cQuantity :: int

text \<open>A create-order request.  \<open>hasShipping\<close> says that \<open>shippingAddress\<close> is present.
  \<open>formatsValid\<close> is the verdict of the validator library on the formats: every product
  id of the cart is a Mongo id, the address fields have the lengths and the guest block the
  formats the validators ask for; these texts play no other part in the handler.  The
  three amounts are the numbers of the parsed body.\<close>

record createReq =
  idemKeyHeader :: "string option"
  reqMethod :: string
  cartItems :: "cartItem list"
  hasShipping :: bool
  formatsValid :: bool
  reqUserId :: "string option"
  userInfo :: "contact option"
  totalPrice :: rat
  discountAmount :: rat
  shippingCharges :: rat

text \<open>The chain \<open>validateOrderCreation\<close>: a cart of at least one item, every quantity an
  integer from 1 to 99, a shipping address, a payment method, a total price that is not
  negative, and the formats.  \<open>validationResult(req)\<close> is empty exactly when all of them
  hold.\<close>

definition validateOrderCreation :: "createReq \<Rightarrow> bool" where
  "validateOrderCreation r =
     (cartItems r \<noteq> [] \<and>
      (\<forall>c \<in> set (cartItems r). 1 \<le> cQuantity c \<and> cQuantity c \<le> 99) \<and>
      hasShipping r \<and> reqMethod r \<noteq> [] \<and> 0 \<le> totalPrice r \<and> formatsValid r)"

text \<open>What the outside world answers during one create-order request: the identifier
  \<open>generateOrderId\<close> comes up with, the User collection, the answer of
  \<open>razorpay.orders.create\<close>, the outcome of the race between
  \<open>phonePeService.createPaymentOrder\<close> and the 15 second timer, and what the database
  makes of the regular expression of the clean-up.

  The clean-up queries \<open>idempotencyKey: { $regex: `^(phonepe|razorpay)_${key}$` }\<close> with
  the caller key of the header spliced into the pattern as it came.  \<open>keyRegex\<close> applied
  to the caller key is the set of texts that pattern matches, or \<open>None\<close> when the
  database rejects the pattern (the query then throws).  A caller key with
  regular-expression metacharacters gives a pattern that need not match the composite keys
  built from that same caller key, and may match others.\<close>

datatype intentResult =
    IntentOk string string string
  | IntentTimeout
  | IntentError string

datatype rzpCreateResult = RzpCreated string | RzpCreateFailed string

record createEnv =
  newOrderId :: string
  lookupUser :: "string \<rightharpoonup> contact"
  rzpCreate :: rzpCreateResult
  ppIntent :: intentResult
  now :: int
  keyRegex :: "string \<Rightarrow> (string \<Rightarrow> bool) option"

definition compositeKey :: "string \<Rightarrow> string \<Rightarrow> string" where
  "compositeKey pm k = pm @ ''_'' @ k"

text \<open>The filter of the clean-up query: the key matches the pattern and both statuses are
  \<open>Pending\<close>.\<close>

definition supersededBy :: "(string \<Rightarrow> bool) \<Rightarrow> order \<Rightarrow> bool" where
  "supersededBy m d =
     (m (idempotencyKey d) \<and> paymentStatus d = PayPending \<and> orderStatus d = Pending)"

text \<open>The loop over the pending orders found: \<open>restoreStock\<close> on the order's items, then
  the order is marked \<open>Canceled\<close> / \<open>Failed\<close>.  The whole block sits in a \<open>try\<close> whose
  \<open>catch\<close> is empty: when the query throws, nothing is cleaned up and the request goes
  on.  A failure of a database call inside the loop is not modelled.\<close>

fun cancelEach :: "order list \<Rightarrow> store \<Rightarrow> store" where
  "cancelEach [] s = s"
| "cancelEach (d # ds) s =
     cancelEach ds
       (setStatusById (oid d) Canceled Failed
          (s\<lparr>products := restoreStock (orderItems d) (products s)\<rparr>))"

definition cancelPending :: "createEnv \<Rightarrow> string \<Rightarrow> store \<Rightarrow> store" where
  "cancelPending e k s =
     (case keyRegex e k of
        None \<Rightarrow> s
      | Some m \<Rightarrow> cancelEach (filter (supersededBy m) (orders s)) s)"

text \<open>What the clean-up does to one stored order, given the \<open>_id\<close>s of the orders it
  cancels; used to describe \<open>cancelPending\<close> in closed form.\<close>

definition cancelMark :: "nat set \<Rightarrow> order \<Rightarrow> order" where
  "cancelMark I x = (if oid x \<in> I then x\<lparr>orderStatus := Canceled, paymentStatus := Failed\<rparr> else x)"


text \<open>The loop over the cart: each product must exist, and \<open>product.stock < item.quantity\<close>
  refuses the cart.  For the two gateways nothing more is done; for every other method
  \<open>product.stock -= item.quantity\<close> and \<open>save\<close> follow on the spot, inside the
  transaction.\<close>

fun prepareItems :: "bool \<Rightarrow> cartItem list \<Rightarrow> products \<Rightarrow> response + (products \<times> orderItem list)" where
  "prepareItems gw [] ps = Inr (ps, [])"
| "prepareItems gw (c # cs) ps =
     (case findById ps (cProductId c) of
        None \<Rightarrow> Inl (Json 404 [(''message'', ''Product not found'')])
      | Some doc \<Rightarrow>
          if jsLess (docStock doc) (cQuantity c)
          then Inl (Json 400 [(''message'', ''Insufficient stock'')])
          else
            (case prepareItems gw cs
                    (if gw then ps
                     else saveProduct (cProductId c)
                            (doc\<lparr>docStock := jsMinus (docStock doc) (cQuantity c)\<rparr>) ps) of
               Inl r \<Rightarrow> Inl r
             | Inr (ps', its) \<Rightarrow>
                 Inr (ps', \<lparr>productId = cProductId c, itemName = productName (docFields doc),
                            itemPrice = productPrice (docFields doc),
                            quantity = cQuantity c\<rparr> # its)))"

definition userDetails :: "createEnv \<Rightarrow> createReq \<Rightarrow> contact option" where
  "userDetails e r = (if truthy (reqUserId r) then lookupUser e (the (reqUserId r)) else None)"

text \<open>The order document the handler builds, with the user or the guest contact attached.\<close>

definition buildOrder :: "createEnv \<Rightarrow> createReq \<Rightarrow> string \<Rightarrow> string \<Rightarrow> orderItem list
    \<Rightarrow> ordStatus \<Rightarrow> payStatus \<Rightarrow> string option \<Rightarrow> string option \<Rightarrow> order" where
  "buildOrder e r pm key its os ps txn mtxn =
     \<lparr>oid = 0, orderId = newOrderId e, idempotencyKey = key, paymentMethod = pm,
      paymentStatus = ps, orderStatus = os, orderItems = its,
      finalTotal = jsAdd (jsSub (totalPrice r) (discountAmount r)) (shippingCharges r),
      transactionId = txn, merchantTransactionId = mtxn,
      isRegisteredUser = truthy (reqUserId r),
      userId = reqUserId r,
      userContact = (if truthy (reqUserId r) \<and> userDetails e r \<noteq> None then userDetails e r else None),
      guestContact = (if truthy (reqUserId r) \<and> userDetails e r \<noteq> None then None else userInfo r),
      partialRefunds = [], totalRefunded = 0, createdAt = now e\<rparr>"

text \<open>Razorpay: the provider order is created and the transaction committed; no Order
  document is written.  An exception of the provider call aborts the transaction.\<close>

definition razorpayBranch :: "createEnv \<Rightarrow> store \<Rightarrow> products \<Rightarrow> response \<times> store" where
  "razorpayBranch e s1 ps =
     (case rzpCreate e of
        RzpCreateFailed m \<Rightarrow> (Thrown m, s1)
      | RzpCreated rid \<Rightarrow>
          (Json 200 [(''success'', ''true''), (''razorpayOrderId'', rid), (''orderId'', newOrderId e)],
           s1\<lparr>products := ps\<rparr>))"

text \<open>PhonePe: a second look for an existing order, then the provider call raced against
  the timer.  On success the deduction loop runs and the order is saved as pending; on the
  timeout the transaction is aborted and a cancelled order is saved outside of it; a failed
  save of that order falls through to the generic error answer.\<close>

definition phonepeBranch :: "createEnv \<Rightarrow> createReq \<Rightarrow> string \<Rightarrow> store \<Rightarrow> products
    \<Rightarrow> orderItem list \<Rightarrow> response \<times> store" where
  "phonepeBranch e r key s1 ps its =
     (case findOne (\<lambda>d. orderId d = newOrderId e \<or> idempotencyKey d = key) s1 of
        Some ex \<Rightarrow>
          (Json 200 [(''success'', ''true''), (''message'', ''Order already processed''),
                     (''orderId'', orderId ex)], s1)
      | None \<Rightarrow>
          (case ppIntent e of
             IntentOk txn mtxn url \<Rightarrow>
               (case insertOrder (buildOrder e r (reqMethod r) key its Pending PayPending
                                    (Some txn) (Some mtxn))
                       (s1\<lparr>products := deductStock its ps\<rparr>) of
                  Some s2 \<Rightarrow>
                    (Json 200 [(''success'', ''true''), (''phonePeTransactionId'', txn),
                               (''paymentUrl'', url), (''orderId'', newOrderId e)], s2)
                | None \<Rightarrow>
                    (Json 500 [(''success'', ''false''), (''errorType'', ''phonepe_error'')], s1))
           | IntentTimeout \<Rightarrow>
               (case insertOrder (buildOrder e r ''phonepe'' key its Canceled Failed None None) s1 of
                  Some s2 \<Rightarrow>
                    (Json 200 [(''success'', ''false''), (''phonepeTimeout'', ''true''),
                               (''orderId'', newOrderId e),
                               (''redirectTo'',
                                ''/store/order-confirmation.html?error=phonepe_timeout&orderId=''
                                  @ newOrderId e)], s2)
                | None \<Rightarrow>
                    (Json 500 [(''success'', ''false''), (''errorType'', ''phonepe_error'')], s1))
           | IntentError m \<Rightarrow>
               (Json 500 [(''success'', ''false''), (''errorType'', ''phonepe_error'')], s1)))"

text \<open>Every other method: the order is saved at once as pending, in the transaction that
  holds the deductions of the cart loop; a rejected save aborts it.\<close>

definition directBranch :: "createEnv \<Rightarrow> createReq \<Rightarrow> string \<Rightarrow> store \<Rightarrow> products
    \<Rightarrow> orderItem list \<Rightarrow> response \<times> store" where
  "directBranch e r key s1 ps its =
     (case insertOrder (buildOrder e r (reqMethod r) key its Pending PayPending None None)
             (s1\<lparr>products := ps\<rparr>) of
        Some s2 \<Rightarrow>
          (Json 201 [(''message'', ''Order created successfully''), (''orderId'', newOrderId e)], s2)
      | None \<Rightarrow> (Thrown ''ValidationError'', s1))"

definition isGateway :: "string \<Rightarrow> bool" where
  "isGateway pm = (pm = ''razorpay'' \<or> pm = ''phonepe'')"

text \<open>\<open>router.post("/create-order")\<close>: the validation result first, then the header, the
  clean-up, the duplicate check and the rest.  The rate limiter in front of the route is not
  part of the model.\<close>

definition createOrder :: "createEnv \<Rightarrow> createReq \<Rightarrow> store \<Rightarrow> response \<times> store" where
  "createOrder e r s =
     (if \<not> validateOrderCreation r
      then (Json 400 [(''success'', ''false''), (''message'', ''Validation failed'')], s)
      else if \<not> truthy (idemKeyHeader r)
      then (Json 400 [(''message'', ''Idempotency key is required to prevent duplicate orders.'')], s)
      else
        let k = the (idemKeyHeader r);
            key = compositeKey (reqMethod r) k;
            s1 = cancelPending e k s
        in case findOne (\<lambda>d. idempotencyKey d = key) s1 of
             Some ex \<Rightarrow>
               (Json 409 [(''message'', ''Order already exists with this idempotency key.''),
                          (''orderId'', orderId ex),
                          (''status'', showOrdStatus (orderStatus ex))], s1)
           | None \<Rightarrow>
               if cartItems r = [] then (Json 400 [(''message'', ''Cart is empty.'')], s1)
               else if \<not> hasShipping r \<or> reqMethod r = [] then
                 (Json 422 [(''message'', ''Shipping address and payment method are required.'')], s1)
               else
                 (case prepareItems (isGateway (reqMethod r)) (cartItems r) (products s1) of
                    Inl resp \<Rightarrow> (resp, s1)
                  | Inr (ps, its) \<Rightarrow>
                      if reqMethod r = ''razorpay'' then razorpayBranch e s1 ps
                      else if reqMethod r = ''phonepe'' then phonepeBranch e r key s1 ps its
                      else directBranch e r key s1 ps its))"

section \<open>PhonePe status check\<close>

text \<open>What the status request (one attempt, the retry budget being one) comes back with:
  the provider's answer, of which the handler reads \<open>state\<close>, \<open>status\<close>,
  \<open>data.state\<close>, \<open>code\<close> and \<open>data.code\<close>, or an error with its \<open>code\<close>.\<close>

datatype statusOutcome =
    StatusAnswer "string option" "string option" "string option" "string option" "string option"
  | StatusError "string option" string

record statusResult =
  success :: bool
  stStatus :: "string option"
  stCode :: "string option"

text \<open>JavaScript \<open>a || b\<close> on optional strings.\<close>

definition jsOr :: "string option \<Rightarrow> string option \<Rightarrow> string option" where
  "jsOr a b = (if truthy a then a else b)"

fun checkPaymentStatus :: "statusOutcome \<Rightarrow> statusResult" where
  "checkPaymentStatus (StatusAnswer st st2 dst cd dcd) =
     \<lparr>success = (jsOr st (jsOr st2 dst) = Some ''COMPLETED'' \<or> jsOr cd dcd = Some ''PAYMENT_SUCCESS''),
      stStatus = jsOr st (jsOr st2 dst), stCode = jsOr cd dcd\<rparr>"
| "checkPaymentStatus (StatusError ec m) =
     (if ec = Some ''ECONNABORTED''
      then \<lparr>success = True, stStatus = Some ''COMPLETED'', stCode = Some ''TIMEOUT_ASSUMED_SUCCESS''\<rparr>
      else \<lparr>success = False, stStatus = Some ''PENDING'', stCode = Some ''STATUS_CHECK_FAILED''\<rparr>)"

section \<open>Payment confirmation\<close>

text \<open>The address of the confirmation email: \<open>order.isRegisteredUser ? order.userEmail :
  order.guestEmail\<close>; nothing is sent when it is missing or empty.\<close>

definition customerEmail :: "order \<Rightarrow> string option" where
  "customerEmail d = map_option cEmail (if isRegisteredUser d then userContact d else guestContact d)"

definition sendCheckoutSuccessEmail :: "string option \<Rightarrow> string \<Rightarrow> store \<Rightarrow> store" where
  "sendCheckoutSuccessEmail to ident s =
     (if truthy to then s\<lparr>emails := emails s @ [(the to, ident)]\<rparr> else s)"

text \<open>\<open>Order.findByIdAndUpdate(order._id, {orderStatus: 'Processing', paymentStatus: 'Paid',
  transactionId})\<close> of the return handler.\<close>

definition markPaidById :: "nat \<Rightarrow> string option \<Rightarrow> store \<Rightarrow> store" where
  "markPaidById i txn s =
     s\<lparr>orders := map (\<lambda>d. if oid d = i
                            then d\<lparr>orderStatus := Processing, paymentStatus := Paid,
                                   transactionId := txn\<rparr>
                            else d) (orders s)\<rparr>"

definition errorPage :: "string \<Rightarrow> string \<Rightarrow> response" where
  "errorPage err ident = Redirect (''/store/order-confirmation.html?error='' @ err @ ''&orderId='' @ ident)"

text \<open>\<open>router.get('/phonepe-return/:orderId')\<close>.  \<open>provider\<close> is what a status request
  for a transaction identifier comes back with.\<close>

definition phonepeReturn :: "(string \<Rightarrow> statusOutcome) \<Rightarrow> string \<Rightarrow> string option \<Rightarrow> store
    \<Rightarrow> response \<times> store" where
  "phonepeReturn provider ident qTxn s =
     (case findOne (\<lambda>d. orderId d = ident) s of
        None \<Rightarrow> (errorPage ''order_not_found'' ident, s)
      | Some d \<Rightarrow>
          if orderStatus d = Canceled \<and> paymentStatus d = Failed
          then (errorPage ''order_cancelled'' ident, s)
          else
            let actual = jsOr (merchantTransactionId d) (jsOr qTxn (transactionId d))
            in if \<not> truthy actual then (errorPage ''no_transaction_id'' ident, s)
               else if success (checkPaymentStatus (provider (the actual)))
               then (Redirect (''/store/order-confirmation.html?orderId='' @ ident @ ''&status=success''),
                     if paymentStatus d \<noteq> Paid
                     then sendCheckoutSuccessEmail (customerEmail d) (orderId d)
                            (markPaidById (oid d) actual s)
                     else s)
               else (errorPage ''payment_failed'' ident, s))"

subsection \<open>PhonePe webhook\<close>

text \<open>The first element of \<open>header.split('###')\<close>: the text before the first
  occurrence of the separator.\<close>

fun beforeSep :: "string \<Rightarrow> string" where
  "beforeSep [] = []"
| "beforeSep (c # cs) = (if take 3 (c # cs) = ''###'' then [] else c # beforeSep cs)"

text \<open>\<open>PhonePeService.verifyWebhookSignature\<close>; \<open>sha\<close> is the hexadecimal SHA-256 digest
  of a text.\<close>

definition verifyWebhookSignature :: "(string \<Rightarrow> string) \<Rightarrow> string \<Rightarrow> string option \<Rightarrow> string
    \<Rightarrow> bool" where
  "verifyWebhookSignature sha clientSecret xVerify responseBody =
     (if \<not> truthy xVerify then False
      else if beforeSep (the xVerify) = [] then False
      else sha (responseBody @ ''/pg/v1/status/'' @ clientSecret) = beforeSep (the xVerify))"

text \<open>A webhook request as the handler sees it: the signature header, the parsed body
  serialised again by \<open>JSON.stringify(req.body)\<close>, and the fields read from the decoded
  payload (\<open>data.merchantTransactionId\<close>, \<open>data.state\<close>, \<open>code\<close>), or a payload that
  cannot be decoded.  \<open>rawBody\<close> is the text that came over the wire; the server keeps
  it as \<open>req.rawBody\<close> (\<open>verify\<close> option of the JSON body parser, commented "Store raw
  body for signature verification"), and the handler does not read it.\<close>

datatype ppPayload =
    Payload "string option" "string option" "string option"
  | Undecodable

record ppWebhookReq =
  xVerify :: "string option"
  rawBody :: string
  jsonBody :: string
  payload :: ppPayload

definition markPaidWebhook :: "nat \<Rightarrow> store \<Rightarrow> store" where
  "markPaidWebhook i s = setStatusById i Processing Paid s"

definition phonepeWebhook :: "(string \<Rightarrow> string) \<Rightarrow> string \<Rightarrow> ppWebhookReq \<Rightarrow> store
    \<Rightarrow> response \<times> store" where
  "phonepeWebhook sha clientSecret r s =
     (if \<not> verifyWebhookSignature sha clientSecret (xVerify r) (jsonBody r)
      then (Json 400 [(''success'', ''false''), (''message'', ''Invalid webhook signature.'')], s)
      else
        case payload r of
          Undecodable \<Rightarrow> (Json 500 [(''success'', ''false'')], s)
        | Payload txn st cd \<Rightarrow>
            if \<not> truthy txn
            then (Json 400 [(''success'', ''false''), (''message'', ''Missing transaction ID.'')], s)
            else
              (case findOne (\<lambda>d. transactionId d = txn) s of
                 None \<Rightarrow> (Json 404 [(''success'', ''false''), (''message'', ''Order not found.'')], s)
               | Some d \<Rightarrow>
                   if st = Some ''COMPLETED'' \<and> cd = Some ''PAYMENT_SUCCESS''
                   then (Json 200 [(''success'', ''true'')],
                         sendCheckoutSuccessEmail (customerEmail d) (orderId d)
                           (markPaidWebhook (oid d) s))
                   else (Json 200 [(''success'', ''true'')],
                         setStatusById (oid d) Canceled Failed s)))"

subsection \<open>Synchronous verification\<close>

text \<open>The bundle \<open>orderData\<close> that create-order handed to the client and the client sends
  back.\<close>

record orderBundle =
  bOrderId :: string
  bIdempotencyKey :: string
  bPaymentMethod :: string
  bOrderItems :: "orderItem list"
  bFinalTotal :: rat
  bUserId :: "string option"
  bUserDetails :: "contact option"
  bUserInfo :: "contact option"

text \<open>The deduction loop of both verify handlers: a missing product aborts the
  transaction with 404, \<open>product.stock < item.quantity\<close> with 400; otherwise
  \<open>product.stock -= item.quantity\<close> and \<open>save\<close>.\<close>

fun deductChecked :: "orderItem list \<Rightarrow> products \<Rightarrow> response + products" where
  "deductChecked [] ps = Inr ps"
| "deductChecked (it # its) ps =
     (case findById ps (productId it) of
        None \<Rightarrow> Inl (Json 404 [(''success'', ''false''), (''message'', ''Product not found'')])
      | Some doc \<Rightarrow>
          if jsLess (docStock doc) (quantity it)
          then Inl (Json 400 [(''success'', ''false''), (''message'', ''Insufficient stock'')])
          else deductChecked its
                 (saveProduct (productId it)
                    (doc\<lparr>docStock := jsMinus (docStock doc) (quantity it)\<rparr>) ps))"

definition paidOrder :: "orderBundle \<Rightarrow> string \<Rightarrow> int \<Rightarrow> order" where
  "paidOrder b txn t =
     \<lparr>oid = 0, orderId = bOrderId b, idempotencyKey = bIdempotencyKey b,
      paymentMethod = bPaymentMethod b, paymentStatus = Paid, orderStatus = Processing,
      orderItems = bOrderItems b, finalTotal = bFinalTotal b,
      transactionId = Some txn, merchantTransactionId = None,
      isRegisteredUser = truthy (bUserId b), userId = bUserId b,
      userContact = (if truthy (bUserId b) \<and> bUserDetails b \<noteq> None then bUserDetails b else None),
      guestContact = (if truthy (bUserId b) \<and> bUserDetails b \<noteq> None then None else bUserInfo b),
      partialRefunds = [], totalRefunded = 0, createdAt = t\<rparr>"

text \<open>\<open>orderData.userDetails?.email || orderData.userInfo?.email || dbOrderData.userEmail ||
  dbOrderData.guestEmail\<close>.\<close>

definition bundleEmail :: "orderBundle \<Rightarrow> string \<Rightarrow> int \<Rightarrow> string option" where
  "bundleEmail b txn t =
     jsOr (map_option cEmail (bUserDetails b))
       (jsOr (map_option cEmail (bUserInfo b))
          (jsOr (map_option cEmail (userContact (paidOrder b txn t)))
                (map_option cEmail (guestContact (paidOrder b txn t)))))"

text \<open>The part both verify handlers share once the provider has confirmed the payment:
  run the deduction loop, insert the order as \<open>Paid\<close> / \<open>Processing\<close>, commit, send the
  confirmation email.\<close>

definition settleBundle :: "orderBundle \<Rightarrow> string \<Rightarrow> int \<Rightarrow> store \<Rightarrow> response \<times> store" where
  "settleBundle b txn t s =
     (case deductChecked (bOrderItems b) (products s) of
        Inl resp \<Rightarrow> (resp, s)
      | Inr ps \<Rightarrow>
          (case insertOrder (paidOrder b txn t) (s\<lparr>products := ps\<rparr>) of
             None \<Rightarrow> (Thrown ''ValidationError'', s)
           | Some s2 \<Rightarrow>
               (Json 200 [(''success'', ''true''), (''orderId'', bOrderId b), (''transactionId'', txn)],
                sendCheckoutSuccessEmail (bundleEmail b txn t) (bOrderId b) s2)))"

record verifyReq =
  razorpay_order_id :: "string option"
  razorpay_payment_id :: "string option"
  razorpay_signature :: "string option"
  vOrderId :: "string option"
  vOrderData :: "orderBundle option"

text \<open>\<open>router.post("/verify-payment")\<close>.  \<open>hm\<close> is HMAC-SHA256 in hexadecimal (key first),
  \<open>fetch\<close> the status of a Razorpay order (\<open>None\<close> when the request fails).\<close>

definition verifyPayment :: "(string \<Rightarrow> string \<Rightarrow> string) \<Rightarrow> string \<Rightarrow> (string \<Rightarrow> string option)
    \<Rightarrow> int \<Rightarrow> verifyReq \<Rightarrow> store \<Rightarrow> response \<times> store" where
  "verifyPayment hm keySecret fetch t r s =
     (if \<not> truthy (razorpay_order_id r) \<or> \<not> truthy (razorpay_payment_id r) \<or>
         \<not> truthy (razorpay_signature r) \<or> \<not> truthy (vOrderId r) \<or> vOrderData r = None
      then (Json 400 [(''success'', ''false''),
                      (''message'', ''Missing required payment verification data'')], s)
      else if hm keySecret (the (razorpay_order_id r) @ ''|'' @ the (razorpay_payment_id r))
                \<noteq> the (razorpay_signature r)
      then (Json 400 [(''success'', ''false''), (''message'', ''Payment verification failed'')], s)
      else
        case findOne (\<lambda>d. orderId d = the (vOrderId r)) s of
          Some ex \<Rightarrow>
            (Json 200 [(''success'', ''true''), (''message'', ''Order already exists''),
                       (''orderId'', the (vOrderId r))], s)
        | None \<Rightarrow>
            if fetch (the (razorpay_order_id r)) \<noteq> Some ''paid''
            then (Json 400 [(''success'', ''false''),
                            (''message'', ''Razorpay order verification failed'')], s)
            else settleBundle (the (vOrderData r)) (the (razorpay_payment_id r)) t s)"

record ppVerifyReq =
  pvTransactionId :: "string option"
  pvOrderId :: "string option"
  pvOrderData :: "orderBundle option"

text \<open>\<open>router.post('/phonepe-verify')\<close>.\<close>

definition phonepeVerify :: "(string \<Rightarrow> statusOutcome) \<Rightarrow> int \<Rightarrow> ppVerifyReq \<Rightarrow> store
    \<Rightarrow> response \<times> store" where
  "phonepeVerify provider t r s =
     (if \<not> truthy (pvTransactionId r) \<or> \<not> truthy (pvOrderId r) \<or> pvOrderData r = None
      then (Json 400 [(''success'', ''false''),
                      (''message'', ''Missing required payment verification data'')], s)
      else
        case findOne (\<lambda>d. orderId d = the (pvOrderId r)) s of
          Some ex \<Rightarrow>
            (Json 200 [(''success'', ''true''), (''message'', ''Order already exists''),
                       (''orderId'', the (pvOrderId r))], s)
        | None \<Rightarrow>
            let st = checkPaymentStatus (provider (the (pvTransactionId r)))
            in if \<not> success st \<or> stStatus st \<noteq> Some ''COMPLETED''
               then (Json 400 [(''success'', ''false''),
                               (''message'', ''Payment not successful or still pending.'')], s)
               else settleBundle (the (pvOrderData r)) (the (pvTransactionId r)) t s)"

subsection \<open>Razorpay webhook\<close>

text \<open>A Razorpay notification as the handlers read it.  \<open>rzpPayload\<close> is \<open>req.body.payload\<close>
  (\<open>None\<close> when the body has none).  \<open>paymentEntity\<close> is \<open>payload.payment.entity\<close>,
  \<open>None\<close> when \<open>payment\<close> or its \<open>entity\<close> is missing; of the entity the handlers read
  \<open>id\<close> and \<open>notes\<close>, and of \<open>notes\<close> (\<open>None\<close> when the entity has none) the field
  \<open>orderId\<close>.  \<open>refundPaymentId\<close> is \<open>payload.refund.entity.payment_id\<close>, \<open>None\<close> when
  \<open>refund\<close> or its \<open>entity\<close> is missing.  Reading a field of a missing object throws a
  \<open>TypeError\<close>.  As for PhonePe, \<open>rzpRawBody\<close> is the text on the wire and
  \<open>rzpJsonBody\<close> is \<open>JSON.stringify(req.body)\<close>.\<close>

record rzpEntity =
  entId :: "string option"
  entNotes :: "string option option"

record rzpPayload =
  paymentEntity :: "rzpEntity option"
  refundPaymentId :: "string option option"

record rzpWebhookReq =
  signatureHeader :: "string option"
  rzpRawBody :: string
  rzpJsonBody :: string
  event :: "string option"
  rzpPayload :: "rzpPayload option"

text \<open>\<open>handlePaymentCaptured\<close>, \<open>handlePaymentFailed\<close> and \<open>handleRefundProcessed\<close> of the
  order routes; \<open>None\<close> is a thrown exception.  The seller notification, whose errors
  \<open>handlePaymentCaptured\<close> catches, and the refund details written on the order are not
  part of the model.  A query for a value that is \<open>undefined\<close> is sent as a query for
  \<open>null\<close>, which matches the documents that lack the field.\<close>

definition handlePaymentCaptured :: "rzpPayload option \<Rightarrow> store \<Rightarrow> store option" where
  "handlePaymentCaptured p s =
     (case p of
        None \<Rightarrow> None
      | Some pl \<Rightarrow>
          (case paymentEntity pl of
             None \<Rightarrow> None
           | Some en \<Rightarrow>
               if \<not> truthy (case entNotes en of None \<Rightarrow> None | Some n \<Rightarrow> n) then Some s
               else
                 (case findOne (\<lambda>d. Some (orderId d) = the (entNotes en)) s of
                    None \<Rightarrow> Some s
                  | Some d \<Rightarrow>
                      if paymentStatus d \<noteq> Paid
                      then Some (replaceOrder (d\<lparr>paymentStatus := Paid, orderStatus := Processing,
                                                  transactionId := entId en\<rparr>) s)
                      else Some s)))"

definition handlePaymentFailed :: "rzpPayload option \<Rightarrow> store \<Rightarrow> store option" where
  "handlePaymentFailed p s =
     (case p of
        None \<Rightarrow> None
      | Some pl \<Rightarrow>
          (case paymentEntity pl of
             None \<Rightarrow> None
           | Some en \<Rightarrow>
               if \<not> truthy (case entNotes en of None \<Rightarrow> None | Some n \<Rightarrow> n) then Some s
               else
                 (case findOne (\<lambda>d. Some (orderId d) = the (entNotes en)) s of
                    None \<Rightarrow> Some s
                  | Some d \<Rightarrow>
                      if paymentStatus d \<noteq> Paid
                      then (let s1 = replaceOrder (d\<lparr>paymentStatus := Failed,
                                                       orderStatus := Canceled\<rparr>) s
                            in Some (s1\<lparr>products := restoreStock (orderItems d) (products s1)\<rparr>))
                      else Some s)))"

definition handleRefundProcessed :: "rzpPayload option \<Rightarrow> store \<Rightarrow> store option" where
  "handleRefundProcessed p s =
     (case p of
        None \<Rightarrow> None
      | Some pl \<Rightarrow>
          (case refundPaymentId pl of
             None \<Rightarrow> None
           | Some pid \<Rightarrow>
               (case findOne (\<lambda>d. transactionId d = pid) s of
                  None \<Rightarrow> Some s
                | Some d \<Rightarrow>
                    (let s1 = replaceOrder (d\<lparr>paymentStatus := Refunded,
                                               orderStatus := Canceled\<rparr>) s
                     in Some (s1\<lparr>products := restoreStock (orderItems d) (products s1)\<rparr>)))))"

definition dispatchEvent :: "rzpWebhookReq \<Rightarrow> store \<Rightarrow> store option" where
  "dispatchEvent r s =
     (if event r = Some ''payment.captured'' then handlePaymentCaptured (rzpPayload r) s
      else if event r = Some ''payment.failed'' then handlePaymentFailed (rzpPayload r) s
      else if event r = Some ''refund.processed'' then handleRefundProcessed (rzpPayload r) s
      else Some s)"

text \<open>\<open>router.post('/razorpay-webhook')\<close>; the secret is \<open>RAZORPAY_WEBHOOK_SECRET\<close>.  An
  exception of a handler is answered 500; what the handler had saved before stays, which
  for these three handlers is nothing.\<close>

definition razorpayWebhook :: "(string \<Rightarrow> string \<Rightarrow> string) \<Rightarrow> string option \<Rightarrow> rzpWebhookReq
    \<Rightarrow> store \<Rightarrow> response \<times> store" where
  "razorpayWebhook hm secret r s =
     (if \<not> truthy secret then (Json 500 [(''status'', ''Webhook secret not configured'')], s)
      else if Some (hm (the secret) (rzpJsonBody r)) \<noteq> signatureHeader r
      then (Json 400 [(''status'', ''Signature mismatch'')], s)
      else case dispatchEvent r s of
             None \<Rightarrow> (Json 500 [(''status'', ''error'')], s)
           | Some s1 \<Rightarrow> (Json 200 [(''status'', ''ok'')], s1))"

text \<open>The same three handlers and the entry point in \<open>webhooks/razorpayWebhook.js\<close>.  No
  stock loop runs there; \<open>notes.orderId\<close> is read without a guard, so an entity without
  notes throws; a missing secret makes the HMAC constructor throw before the \<open>try\<close>.
  After a captured payment is saved the seller is looked up and notified outside any
  \<open>try\<close> of the handler: \<open>notifyOk\<close> says that this completes, and where it throws the
  answer is 500 with the order saved.\<close>

definition handlePaymentCaptured_wh :: "bool \<Rightarrow> rzpPayload option \<Rightarrow> store \<Rightarrow> store \<times> bool" where
  "handlePaymentCaptured_wh notifyOk p s =
     (case p of
        None \<Rightarrow> (s, False)
      | Some pl \<Rightarrow>
          (case paymentEntity pl of
             None \<Rightarrow> (s, False)
           | Some en \<Rightarrow>
               (case entNotes en of
                  None \<Rightarrow> (s, False)
                | Some n \<Rightarrow>
                    (case findOne (\<lambda>d. Some (orderId d) = n) s of
                       None \<Rightarrow> (s, True)
                     | Some d \<Rightarrow>
                         if paymentStatus d \<noteq> Paid
                         then (replaceOrder (d\<lparr>paymentStatus := Paid, orderStatus := Processing,
                                                transactionId := entId en\<rparr>) s, notifyOk)
                         else (s, True)))))"

definition handlePaymentFailed_wh :: "rzpPayload option \<Rightarrow> store \<Rightarrow> store \<times> bool" where
  "handlePaymentFailed_wh p s =
     (case p of
        None \<Rightarrow> (s, False)
      | Some pl \<Rightarrow>
          (case paymentEntity pl of
             None \<Rightarrow> (s, False)
           | Some en \<Rightarrow>
               (case entNotes en of
                  None \<Rightarrow> (s, False)
                | Some n \<Rightarrow>
                    (case findOne (\<lambda>d. Some (orderId d) = n) s of
                       None \<Rightarrow> (s, True)
                     | Some d \<Rightarrow>
                         if paymentStatus d \<noteq> Paid
                         then (replaceOrder (d\<lparr>paymentStatus := Failed,
                                                orderStatus := Canceled\<rparr>) s, True)
                         else (s, True)))))"

definition handleRefundProcessed_wh :: "rzpPayload option \<Rightarrow> store \<Rightarrow> store \<times> bool" where
  "handleRefundProcessed_wh p s =
     (case p of
        None \<Rightarrow> (s, False)
      | Some pl \<Rightarrow>
          (case refundPaymentId pl of
             None \<Rightarrow> (s, False)
           | Some pid \<Rightarrow>
               (case findOne (\<lambda>d. transactionId d = pid) s of
                  None \<Rightarrow> (s, True)
                | Some d \<Rightarrow>
                    (replaceOrder (d\<lparr>paymentStatus := Refunded, orderStatus := Canceled\<rparr>) s,
                     True))))"

text \<open>The second component of a handler's result says that it returned; \<open>False\<close> is a
  thrown exception, answered 500 with the store as the handler left it.\<close>

definition handleRazorpayWebhook :: "(string \<Rightarrow> string \<Rightarrow> string) \<Rightarrow> string option \<Rightarrow> bool
    \<Rightarrow> rzpWebhookReq \<Rightarrow> store \<Rightarrow> response \<times> store" where
  "handleRazorpayWebhook hm secret notifyOk r s =
     (case secret of
        None \<Rightarrow> (Thrown ''TypeError'', s)
      | Some k \<Rightarrow>
          if Some (hm k (rzpJsonBody r)) \<noteq> signatureHeader r
          then (Json 400 [(''status'', ''Signature mismatch'')], s)
          else
            (case (if event r = Some ''payment.captured''
                   then handlePaymentCaptured_wh notifyOk (rzpPayload r) s
                   else if event r = Some ''payment.failed''
                   then handlePaymentFailed_wh (rzpPayload r) s
                   else if event r = Some ''refund.processed''
                   then handleRefundProcessed_wh (rzpPayload r) s
                   else (s, True)) of
               (s1, True) \<Rightarrow> (Json 200 [(''status'', ''ok'')], s1)
             | (s1, False) \<Rightarrow> (Json 500 [(''status'', ''error'')], s1)))"

section \<open>Refunds\<close>

text \<open>What the provider's refund call comes back with: the refunded amount in paise
  (\<open>refundResponse.amount\<close>), or an exception.  The provider is asked for an amount in
  paise, which is \<open>NaN\<close> (\<open>None\<close>) when the amount of the request is.\<close>

datatype refundOutcome = RefundOk int | RefundFailed string

definition bad :: "string \<Rightarrow> response" where
  "bad m = Json 400 [(''success'', ''false''), (''message'', m)]"

text \<open>\<open>existingRefunds.reduce((sum, refund) => sum + refund.refundAmount, 0)\<close>.\<close>

definition sumRefunds :: "rat list \<Rightarrow> rat" where
  "sumRefunds xs = foldl jsAdd 0 xs"

text \<open>\<open>parseFloat(amount)\<close>: the double nearest to the decimal number of the request;
  \<open>None\<close> is \<open>NaN\<close>, for an amount that is missing or not a number.\<close>

definition parseFloat :: "rat option \<Rightarrow> rat option" where
  "parseFloat a = map_option nearestDouble a"

text \<open>The two amount checks of the partial refund.  Every comparison with \<open>NaN\<close> is
  false, so neither check refuses it.\<close>

definition amountOutOfRange :: "rat option \<Rightarrow> order \<Rightarrow> bool" where
  "amountOutOfRange a d = (case a of None \<Rightarrow> False | Some x \<Rightarrow> x \<le> 0 \<or> x > finalTotal d)"

definition exceedsRemaining :: "rat option \<Rightarrow> order \<Rightarrow> bool" where
  "exceedsRemaining a d =
     (case a of
        None \<Rightarrow> False
      | Some x \<Rightarrow> jsAdd (sumRefunds (partialRefunds d)) x > finalTotal d)"

text \<open>\<open>router.post('/refund/partial')\<close>: the provider is asked for
  \<open>Math.round(refundAmount * 100)\<close> paise, and the order books \<open>refundResponse.amount /
  100\<close>.  Every exception is answered 400 with its message.\<close>

definition refundPartial :: "(string \<Rightarrow> int option \<Rightarrow> refundOutcome) \<Rightarrow> string \<Rightarrow> rat option
    \<Rightarrow> store \<Rightarrow> response \<times> store" where
  "refundPartial provider ident amount s =
     (case findOne (\<lambda>d. orderId d = ident) s of
        None \<Rightarrow> (Json 404 [(''success'', ''false''), (''message'', ''Order not found'')], s)
      | Some d \<Rightarrow>
          if \<not> truthy (transactionId d) then (bad ''Order has no valid payment transaction'', s)
          else if paymentStatus d \<noteq> Paid then (bad ''Cannot refund unpaid order'', s)
          else if amountOutOfRange (parseFloat amount) d then (bad ''Invalid refund amount'', s)
          else if exceedsRemaining (parseFloat amount) d
          then (bad ''Cannot refund: exceeds the remaining amount'', s)
          else
            (case provider (the (transactionId d))
                    (map_option (\<lambda>x. mathRound (jsMul x 100)) (parseFloat amount)) of
               RefundFailed m \<Rightarrow> (bad m, s)
             | RefundOk paise \<Rightarrow>
                 (let newTotal = jsAdd (sumRefunds (partialRefunds d)) (jsDiv (of_int paise) 100);
                      d1 = d\<lparr>partialRefunds := partialRefunds d @ [jsDiv (of_int paise) 100],
                             totalRefunded := newTotal\<rparr>;
                      d2 = (if newTotal \<ge> finalTotal d
                            then d1\<lparr>paymentStatus := Refunded, orderStatus := Canceled\<rparr>
                            else d1)
                  in (Json 200 [(''success'', ''true''),
                                (''message'', ''Partial refund processed successfully'')],
                      replaceOrder d2 s))))"

section \<open>Auto-cancel sweep\<close>

text \<open>The audit events of the sweep, and the two ways a database call can fail in it: the
  load or save of a product (caught per item) and the update of an order (caught per
  order).\<close>

datatype auditEvent =
    OrderAutoCancelled string
  | AutoCancelOrderFailed string
  | AutoCancelSummary nat nat nat

record dbFaults =
  productFails :: "string \<Rightarrow> bool"
  updateFails :: "nat \<Rightarrow> bool"

text \<open>The stock loop of \<open>cancelOrder\<close>: as \<open>restoreStock\<close>, with each item in a
  \<open>try\<close> of its own.\<close>

fun restoreItems :: "dbFaults \<Rightarrow> orderItem list \<Rightarrow> products \<Rightarrow> products" where
  "restoreItems f [] ps = ps"
| "restoreItems f (it # its) ps =
     (if productFails f (productId it) then restoreItems f its ps
      else case findById ps (productId it) of
             None \<Rightarrow> restoreItems f its ps
           | Some doc \<Rightarrow>
               restoreItems f its
                 (saveProduct (productId it)
                    (doc\<lparr>docStock := jsPlus (docStock doc) (quantity it)\<rparr>) ps))"

text \<open>\<open>cancelOrder\<close>: \<open>Inl\<close> is the exception of the order update, raised after the loop
  over the items has run.\<close>

definition cancelOrder :: "dbFaults \<Rightarrow> order \<Rightarrow> store \<Rightarrow> store \<times> (string + auditEvent)" where
  "cancelOrder f d s =
     (let s1 = s\<lparr>products := restoreItems f (orderItems d) (products s)\<rparr>
      in if updateFails f (oid d) then (s1, Inl ''update failed'')
         else (setStatusById (oid d) Canceled Failed s1, Inr (OrderAutoCancelled (orderId d))))"

definition overdue :: "int \<Rightarrow> int \<Rightarrow> order \<Rightarrow> bool" where
  "overdue timeoutMinutes t d =
     (paymentStatus d = PayPending \<and> (orderStatus d = Pending \<or> orderStatus d = Processing) \<and>
      createdAt d < t - timeoutMinutes * 60 * 1000)"

text \<open>The loop of the sweep with its two counters and the events logged so far.  The query
  that selects the orders is taken to succeed.\<close>

fun sweepLoop :: "dbFaults \<Rightarrow> order list \<Rightarrow> store \<Rightarrow> nat \<Rightarrow> nat \<Rightarrow> auditEvent list
    \<Rightarrow> store \<times> nat \<times> nat \<times> auditEvent list" where
  "sweepLoop f [] s c e lg = (s, c, e, lg)"
| "sweepLoop f (d # ds) s c e lg =
     (case cancelOrder f d s of
        (s1, Inr ev) \<Rightarrow> sweepLoop f ds s1 (c + 1) e (lg @ [ev])
      | (s1, Inl m) \<Rightarrow> sweepLoop f ds s1 c (e + 1) (lg @ [AutoCancelOrderFailed (orderId d)]))"

definition checkPendingOrders :: "dbFaults \<Rightarrow> int \<Rightarrow> int \<Rightarrow> store \<Rightarrow> store \<times> auditEvent list" where
  "checkPendingOrders f timeoutMinutes t s =
     (let pendingOrders = filter (overdue timeoutMinutes t) (orders s)
      in if pendingOrders = [] then (s, [])
         else case sweepLoop f pendingOrders s 0 0 [] of
                (s1, c, e, lg) \<Rightarrow> (s1, lg @ [AutoCancelSummary (length pendingOrders) c e]))"

definition defaultTimeoutMinutes :: int where
  "defaultTimeoutMinutes = 30"

text \<open>The event the sweep logs for one selected order, the numbers of selected orders whose
  update fails and succeeds, and the \<open>_id\<close>s of the latter; used to state what a sweep
  does.\<close>

definition sweepEvent :: "dbFaults \<Rightarrow> order \<Rightarrow> auditEvent" where
  "sweepEvent f d =
     (if updateFails f (oid d) then AutoCancelOrderFailed (orderId d) else OrderAutoCancelled (orderId d))"

definition failCount :: "dbFaults \<Rightarrow> order list \<Rightarrow> nat" where
  "failCount f ds = length (filter (\<lambda>d. updateFails f (oid d)) ds)"

definition okCount :: "dbFaults \<Rightarrow> order list \<Rightarrow> nat" where
  "okCount f ds = length (filter (\<lambda>d. \<not> updateFails f (oid d)) ds)"

definition okIds :: "dbFaults \<Rightarrow> order list \<Rightarrow> nat set" where
  "okIds f ds = oid ` {d \<in> set ds. \<not> updateFails f (oid d)}"

section \<open>Example data\<close>

text \<open>A small shop used to run the handlers on concrete requests: one product, a guest
  customer, and a cart holding two units.  The digest functions below stand in for SHA-256
  and HMAC-SHA256 in those runs; the handlers only ever compare digests for equality.\<close>

definition alice :: contact where
  "alice = \<lparr>cName = ''Alice'', cEmail = ''alice@example.com'', cPhone = ''9999999999''\<rparr>"

definition apple :: product where
  "apple = \<lparr>productName = ''Apple'', productPrice = 100\<rparr>"

definition appleId :: string where
  "appleId = ''64b7f0c2a1d3e4f5a6b7c8d9''"

definition goneId :: string where
  "goneId = ''64b7f0c2a1d3e4f5a6b7c8da''"

definition twoApples :: orderItem where
  "twoApples = \<lparr>productId = appleId, itemName = ''Apple'', itemPrice = 100, quantity = 2\<rparr>"

definition ghostItem :: orderItem where
  "ghostItem = \<lparr>productId = goneId, itemName = ''Pear'', itemPrice = 10, quantity = 7\<rparr>"

definition shop :: store where
  "shop = \<lparr>products = [appleId \<mapsto> apple], orders = [], emails = []\<rparr>"

definition pendingOrder :: order where
  "pendingOrder =
     \<lparr>oid = 0, orderId = ''ORD-20250101-1'', idempotencyKey = ''phonepe_K1'',
      paymentMethod = ''phonepe'', paymentStatus = PayPending, orderStatus = Pending,
      orderItems = [twoApples], finalTotal = 200,
      transactionId = Some ''OMO1'', merchantTransactionId = Some ''ORD_1'',
      isRegisteredUser = False, userId = None, userContact = None, guestContact = Some alice,
      partialRefunds = [], totalRefunded = 0, createdAt = 0\<rparr>"

definition toySha :: "string \<Rightarrow> string" where
  "toySha m = ''sha:'' @ m"

definition toyHmac :: "string \<Rightarrow> string \<Rightarrow> string" where
  "toyHmac k m = ''hmac:'' @ k @ '':'' @ m"

definition guestCart :: createReq where
  "guestCart =
     \<lparr>idemKeyHeader = Some ''K1'', reqMethod = ''phonepe'',
      cartItems = [\<lparr>cProductId = appleId, cQuantity = 2\<rparr>], hasShipping = True,
      formatsValid = True, reqUserId = None, userInfo = Some alice,
      totalPrice = 200, discountAmount = 0, shippingCharges = 0\<rparr>"

text \<open>The regular expression of the clean-up for the caller key \<open>K1\<close>, the only one the
  examples send: \<open>^(phonepe|razorpay)_K1$\<close> matches the two composite keys of \<open>K1\<close>,
  and either of them followed by one line feed, the dollar sign standing for the end of
  the text or the place before a final line feed.  Other caller keys are not used; the
  engine is given as rejecting them.\<close>

definition regexK1 :: "string \<Rightarrow> (string \<Rightarrow> bool) option" where
  "regexK1 k =
     (if k = ''K1''
      then Some (\<lambda>t. t = ''phonepe_K1'' \<or> t = ''razorpay_K1'' \<or>
                      t = ''phonepe_K1'' @ [CHR 0x0A] \<or> t = ''razorpay_K1'' @ [CHR 0x0A])
      else None)"

definition firstEnv :: createEnv where
  "firstEnv =
     \<lparr>newOrderId = ''ORD-20250101-1'', lookupUser = Map.empty, rzpCreate = RzpCreated ''order_R1'',
      ppIntent = IntentOk ''OMO1'' ''ORD_1'' ''https://pay.example/1'', now = 0,
      keyRegex = regexK1\<rparr>"

definition settledOrder :: order where
  "settledOrder = pendingOrder\<lparr>paymentStatus := Paid, orderStatus := Processing\<rparr>"

text \<open>A refund gateway that refunds the number of paise it is asked for.\<close>

definition echoRefund :: "string \<Rightarrow> int option \<Rightarrow> refundOutcome" where
  "echoRefund txn paise =
     (case paise of None \<Rightarrow> RefundFailed ''The amount must be an integer'' | Some p \<Rightarrow> RefundOk p)"

definition noFaults :: dbFaults where
  "noFaults = \<lparr>productFails = (\<lambda>_. False), updateFails = (\<lambda>_. False)\<rparr>"

text \<open>A later moment of the same checkout: the customer has paid a Razorpay order under
  caller key \<open>K1\<close> and then opened a PhonePe attempt under the same key.\<close>

definition razorpaidOrder :: order where
  "razorpaidOrder =
     pendingOrder\<lparr>idempotencyKey := ''razorpay_K1'', paymentMethod := ''razorpay'',
                  paymentStatus := Paid, orderStatus := Processing,
                  transactionId := Some ''pay_1'', merchantTransactionId := None\<rparr>"

definition midCheckout :: store where
  "midCheckout =
     \<lparr>products = [appleId \<mapsto> apple],
      orders = [razorpaidOrder, pendingOrder\<lparr>oid := 1, orderId := ''ORD-20250101-2''\<rparr>],
      emails = [(''alice@example.com'', ''ORD-20250101-1'')]\<rparr>"

text \<open>A signed PhonePe success notification for the pending order, and the four steps of a
  customer who opens a PhonePe attempt, switches to Razorpay under the same caller key, and
  then completes both payments: the PhonePe notification arrives after the switch, the
  Razorpay verification last.\<close>

definition successHook :: ppWebhookReq where
  "successHook =
     \<lparr>xVerify = Some (toySha (''{code:PAYMENT_SUCCESS}'' @ ''/pg/v1/status/'' @ ''secret'') @ ''###1''),
      rawBody = ''{code:PAYMENT_SUCCESS}'', jsonBody = ''{code:PAYMENT_SUCCESS}'',
      payload = Payload (Some ''OMO1'') (Some ''COMPLETED'') (Some ''PAYMENT_SUCCESS'')\<rparr>"

definition switchVerify :: verifyReq where
  "switchVerify =
     \<lparr>razorpay_order_id = Some ''order_R1'', razorpay_payment_id = Some ''pay_1'',
      razorpay_signature = Some (toyHmac ''rzpsecret'' ''order_R1|pay_1''),
      vOrderId = Some ''ORD-20250101-2'',
      vOrderData = Some \<lparr>bOrderId = ''ORD-20250101-2'', bIdempotencyKey = ''razorpay_K1'',
                          bPaymentMethod = ''razorpay'', bOrderItems = [twoApples],
                          bFinalTotal = 200, bUserId = None, bUserDetails = None,
                          bUserInfo = Some alice\<rparr>\<rparr>"

definition afterPhonePeAttempt :: store where
  "afterPhonePeAttempt = snd (createOrder firstEnv guestCart shop)"

definition afterRazorpaySwitch :: store where
  "afterRazorpaySwitch =
     snd (createOrder (firstEnv\<lparr>newOrderId := ''ORD-20250101-2''\<rparr>)
            (guestCart\<lparr>reqMethod := ''razorpay''\<rparr>) afterPhonePeAttempt)"

definition afterLateWebhook :: store where
  "afterLateWebhook = snd (phonepeWebhook toySha ''secret'' successHook afterRazorpaySwitch)"

definition afterRazorpayVerify :: store where
  "afterRazorpayVerify =
     snd (verifyPayment toyHmac ''rzpsecret'' (\<lambda>_. Some ''paid'') 10 switchVerify afterLateWebhook)"

text \<open>Two paid Razorpay orders for the refund examples: one whose total of 10.006 rupees
  is not a whole number of paise, and one of 0.30 rupees that has seen a partial refund of
  0.10 rupees.\<close>

definition oddTotalOrder :: order where
  "oddTotalOrder = razorpaidOrder\<lparr>finalTotal := nearestDouble (5003 / 500)\<rparr>"

definition thirtyPaiseOrder :: order where
  "thirtyPaiseOrder =
     razorpaidOrder\<lparr>finalTotal := nearestDouble (3 / 10),
                    partialRefunds := [nearestDouble (1 / 10)],
                    totalRefunded := nearestDouble (1 / 10)\<rparr>"

text \<open>A Razorpay notification of a failed payment whose body came over the wire with
  blanks after the punctuation, signed by the sender over exactly that text;
  \<open>JSON.stringify\<close> of the parsed body gives the compact text.  \<open>compactHook\<close> is the
  same notification sent and signed in the compact form.\<close>

definition quoted :: "string \<Rightarrow> string" where
  "quoted w = CHR 0x22 # w @ [CHR 0x22]"

definition spacedText :: string where
  "spacedText =
     ''{ '' @ quoted ''event'' @ '': '' @ quoted ''payment.failed'' @ '', '' @
     quoted ''payload'' @ '': { '' @ quoted ''payment'' @ '': { '' @ quoted ''entity'' @ '': { '' @
     quoted ''id'' @ '': '' @ quoted ''pay_9'' @ '', '' @ quoted ''notes'' @ '': {} } } } }''"

definition compactText :: string where
  "compactText =
     ''{'' @ quoted ''event'' @ '':'' @ quoted ''payment.failed'' @ '','' @
     quoted ''payload'' @ '':{'' @ quoted ''payment'' @ '':{'' @ quoted ''entity'' @ '':{'' @
     quoted ''id'' @ '':'' @ quoted ''pay_9'' @ '','' @ quoted ''notes'' @ '':{}}}}}''"

definition spacedHook :: rzpWebhookReq where
  "spacedHook =
     \<lparr>signatureHeader = Some (toyHmac ''whsec'' spacedText),
      rzpRawBody = spacedText, rzpJsonBody = compactText,
      event = Some ''payment.failed'',
      rzpPayload = Some \<lparr>paymentEntity = Some \<lparr>entId = Some ''pay_9'', entNotes = Some None\<rparr>,
                          refundPaymentId = None\<rparr>\<rparr>"

definition compactHook :: rzpWebhookReq where
  "compactHook =
     spacedHook\<lparr>signatureHeader := Some (toyHmac ''whsec'' compactText), rzpRawBody := compactText\<rparr>"

text \<open>A PhonePe success notification for the pending order, sent as plain JSON with
  blanks after the punctuation and signed by the sender over exactly that text.\<close>

definition ppSpacedText :: string where
  "ppSpacedText =
     ''{ '' @ quoted ''code'' @ '': '' @ quoted ''PAYMENT_SUCCESS'' @ '', '' @
     quoted ''data'' @ '': { '' @ quoted ''merchantTransactionId'' @ '': '' @ quoted ''OMO1'' @ '', '' @
     quoted ''state'' @ '': '' @ quoted ''COMPLETED'' @ '' } }''"

definition ppCompactText :: string where
  "ppCompactText =
     ''{'' @ quoted ''code'' @ '':'' @ quoted ''PAYMENT_SUCCESS'' @ '','' @
     quoted ''data'' @ '':{'' @ quoted ''merchantTransactionId'' @ '':'' @ quoted ''OMO1'' @ '','' @
     quoted ''state'' @ '':'' @ quoted ''COMPLETED'' @ ''}}''"

definition spacedSuccessHook :: ppWebhookReq where
  "spacedSuccessHook =
     \<lparr>xVerify = Some (toySha (ppSpacedText @ ''/pg/v1/status/'' @ ''secret'') @ ''###1''),
      rawBody = ppSpacedText, jsonBody = ppCompactText,
      payload = Payload (Some ''OMO1'') (Some ''COMPLETED'') (Some ''PAYMENT_SUCCESS'')\<rparr>"

text \<open>Two stale pending orders and a paid one for the sweep examples; the update of the
  first one fails.\<close>

definition staleShop :: store where
  "staleShop =
     \<lparr>products = [appleId \<mapsto> apple],
      orders = [pendingOrder, pendingOrder\<lparr>oid := 1, orderId := ''ORD-20250101-2''\<rparr>,
                razorpaidOrder\<lparr>oid := 2, orderId := ''ORD-20250101-3''\<rparr>],
      emails = []\<rparr>"

definition firstUpdateFails :: dbFaults where
  "firstUpdateFails = \<lparr>productFails = (\<lambda>_. False), updateFails = (\<lambda>i. i = 0)\<rparr>"

section \<open>Numbers of the examples\<close>

text \<open>Whole rupee amounts such as 200 are doubles; 10.006 and 10.01 are not, and these are
  the doubles nearest to them.\<close>

lemma nearestDouble_200: "nearestDouble 200 = 200"
  by code_simp

lemma nearestDouble_odd: "nearestDouble (5003 / 500) = 352054827120853 / 35184372088832"
  by code_simp

lemma nearestDouble_paise: "nearestDouble (1001 / 100) = 5635129033747333 / 562949953421312"
  by code_simp

section \<open>The stock loops\<close>

lemma findById_save:
  "findById ps pid = Some doc \<Longrightarrow> saveProduct pid (doc\<lparr>docStock := n\<rparr>) ps = ps"
  by (auto simp: findById_def saveProduct_def fun_eq_iff)

lemma restoreStock_stores_nothing: "restoreStock its ps = ps"
  by (induction its) (auto simp: findById_save split: option.splits)

lemma deductStock_stores_nothing: "deductStock its ps = ps"
  by (induction its) (auto simp: findById_save split: option.splits)

lemma restoreItems_stores_nothing: "restoreItems f its ps = ps"
  by (induction its) (auto simp: findById_save split: option.splits)

lemma setStatusById_products [simp]: "products (setStatusById i a b s) = products s"
  by (simp add: setStatusById_def)

lemma replaceOrder_products [simp]: "products (replaceOrder d s) = products s"
  by (simp add: replaceOrder_def)

text \<open>
  Claim C10 says that the restoration loops skip an item whose product is gone and add
  the quantities of all other items to the stock of their products.  The loops do skip the
  missing product and the enclosing operation completes, but no stock is added: run on
  two units of the apple and seven units of a product that is gone, \<open>restoreStock\<close>
  leaves the Product collection as it was.  The loop reads \<open>product.stock\<close> from a
  document whose schema has no such path, so it reads \<open>undefined\<close>, adds the quantity
  to get \<open>NaN\<close> on the object in memory, and \<open>save\<close> has no path to write.  The same
  holds for the loop of the auto-cancel \<open>cancelOrder\<close>, which goes on to cancel the order
  and report it.
\<close>

theorem restore_stock_adds_nothing:
  "restoreStock [twoApples, ghostItem] (products shop) = products shop
   \<and> findById (products shop) goneId = None
   \<and> map_option (\<lambda>doc. (docStock doc, jsPlus (docStock doc) (quantity twoApples)))
        (findById (products shop) appleId) = Some (Undefined, NaN)
   \<and> cancelOrder noFaults (pendingOrder\<lparr>orderItems := [twoApples, ghostItem]\<rparr>)
        (shop\<lparr>orders := [pendingOrder\<lparr>orderItems := [twoApples, ghostItem]\<rparr>]\<rparr>)
      = (shop\<lparr>orders := [pendingOrder\<lparr>orderItems := [twoApples, ghostItem],
                                        orderStatus := Canceled, paymentStatus := Failed\<rparr>]\<rparr>,
         Inr (OrderAutoCancelled ''ORD-20250101-1''))"
  by (simp add: restoreStock_stores_nothing restoreItems_stores_nothing findById_def shop_def
        appleId_def goneId_def cancelOrder_def noFaults_def setStatusById_def pendingOrder_def
        twoApples_def)

section \<open>The return handler and cancelled orders\<close>

text \<open>
  Claim C9.  When the order found for \<open>GET /phonepe-return/:orderId\<close> is \<open>Canceled\<close> with
  payment \<open>Failed\<close>, the handler redirects to the error page with \<open>error=order_cancelled\<close>;
  the store is returned as it was and the answer does not depend on what the provider
  would say, so no status check and no order update takes place.
\<close>

theorem cancelled_order_return_is_inert:
  assumes "findOne (\<lambda>d. orderId d = ident) s = Some d"
      and "orderStatus d = Canceled" and "paymentStatus d = Failed"
  shows "phonepeReturn provider ident qTxn s = (errorPage ''order_cancelled'' ident, s)"
  using assms by (simp add: phonepeReturn_def)

theorem cancelled_order_return_is_inert_witness:
  "phonepeReturn (\<lambda>_. StatusError (Some ''ECONNABORTED'') ''timeout'') ''ORD-20250101-1'' None
     (shop\<lparr>orders := [pendingOrder\<lparr>orderStatus := Canceled, paymentStatus := Failed\<rparr>]\<rparr>)
   = (errorPage ''order_cancelled'' ''ORD-20250101-1'',
      shop\<lparr>orders := [pendingOrder\<lparr>orderStatus := Canceled, paymentStatus := Failed\<rparr>]\<rparr>)"
  using cancelled_order_return_is_inert
          [of "''ORD-20250101-1''"
              "shop\<lparr>orders := [pendingOrder\<lparr>orderStatus := Canceled, paymentStatus := Failed\<rparr>]\<rparr>"
              "pendingOrder\<lparr>orderStatus := Canceled, paymentStatus := Failed\<rparr>"
              "\<lambda>_. StatusError (Some ''ECONNABORTED'') ''timeout''" None]
  by (simp add: findOne_def pendingOrder_def)

section \<open>Order creation\<close>

lemma guestCart_valid:
  "m \<noteq> [] \<Longrightarrow> validateOrderCreation (guestCart\<lparr>reqMethod := m, userInfo := u\<rparr>)"
  by (simp add: validateOrderCreation_def guestCart_def)

lemma guestCart_validates:
  "validateOrderCreation guestCart"
  "validateOrderCreation (guestCart\<lparr>reqMethod := ''razorpay''\<rparr>)"
  "validateOrderCreation (guestCart\<lparr>reqMethod := ''cod''\<rparr>)"
  "validateOrderCreation (guestCart\<lparr>userInfo := None\<rparr>)"
  by (simp_all add: validateOrderCreation_def guestCart_def)

lemma findById_shop: "findById [appleId \<mapsto> apple] appleId = Some \<lparr>docFields = apple, docStock = Undefined\<rparr>"
  by (simp add: findById_def)

lemma prepareItems_stores_nothing:
  "prepareItems gw cs ps = Inr (ps', its) \<Longrightarrow> ps' = ps"
  by (induction cs arbitrary: its)
     (auto simp: findById_save split: option.splits if_splits sum.splits)

lemma prepareItems_error:
  "prepareItems gw cs ps = Inl resp \<Longrightarrow> (\<exists>f. resp = Json 404 f) \<or> (\<exists>f. resp = Json 400 f)"
  by (induction cs arbitrary: ps) (auto split: option.splits if_splits sum.splits)

lemma prepareItems_guestCart:
  "prepareItems gw [\<lparr>cProductId = appleId, cQuantity = 2\<rparr>] [appleId \<mapsto> apple]
     = Inr ([appleId \<mapsto> apple], [twoApples])"
  by (cases gw) (simp_all add: findById_def saveProduct_def twoApples_def apple_def)

text \<open>The handler past its first two checks, for a request that passes the validators and
  carries a caller key.\<close>

lemma createOrder_checked:
  assumes "validateOrderCreation r" and "truthy (idemKeyHeader r)"
  shows "createOrder e r s =
     (case findOne (\<lambda>d. idempotencyKey d = compositeKey (reqMethod r) (the (idemKeyHeader r)))
             (cancelPending e (the (idemKeyHeader r)) s) of
        Some ex \<Rightarrow>
          (Json 409 [(''message'', ''Order already exists with this idempotency key.''),
                     (''orderId'', orderId ex),
                     (''status'', showOrdStatus (orderStatus ex))],
           cancelPending e (the (idemKeyHeader r)) s)
      | None \<Rightarrow>
          (case prepareItems (isGateway (reqMethod r)) (cartItems r)
                  (products (cancelPending e (the (idemKeyHeader r)) s)) of
             Inl resp \<Rightarrow> (resp, cancelPending e (the (idemKeyHeader r)) s)
           | Inr (ps, its) \<Rightarrow>
               if reqMethod r = ''razorpay''
               then razorpayBranch e (cancelPending e (the (idemKeyHeader r)) s) ps
               else if reqMethod r = ''phonepe''
               then phonepeBranch e r (compositeKey (reqMethod r) (the (idemKeyHeader r)))
                      (cancelPending e (the (idemKeyHeader r)) s) ps its
               else directBranch e r (compositeKey (reqMethod r) (the (idemKeyHeader r)))
                      (cancelPending e (the (idemKeyHeader r)) s) ps its))"
proof -
  from assms(1) have "cartItems r \<noteq> []" "hasShipping r" "reqMethod r \<noteq> []"
    by (simp_all add: validateOrderCreation_def)
  with assms show ?thesis
    by (simp add: createOrder_def Let_def)
qed

lemmas run_defs =
  findOne_def compositeKey_def isGateway_def
  razorpayBranch_def phonepeBranch_def directBranch_def insertOrder_def schemaValid_def
  uniqueFree_def buildOrder_def userDetails_def contactFilled_def supersededBy_def
  setStatusById_def Let_def jsAdd_def jsSub_def nearestDouble_200 deductStock_stores_nothing
  restoreStock_stores_nothing

lemmas data_defs =
  shop_def alice_def twoApples_def pendingOrder_def firstEnv_def regexK1_def

lemma cancelPending_shop: "cancelPending firstEnv ''K1'' shop = shop"
  by (simp add: cancelPending_def firstEnv_def regexK1_def shop_def)

text \<open>
  Claim C5, as amended.  When the PhonePe intent creation loses the race against the
  15 second timer, create-order leaves no pending attempt behind: the transaction is
  aborted, the Product collection is the one the clean-up left, and a synthesized order
  with \<open>Canceled\<close> / \<open>Failed\<close> is saved.  When the Order schema accepts that document the
  answer is the redirect-with-error response (200, \<open>success=false\<close>, \<open>phonepeTimeout\<close>,
  \<open>redirectTo\<close> with \<open>error=phonepe_timeout\<close>); when the save is rejected nothing is
  persisted and the answer is 500.  A timeout (\<open>ECONNABORTED\<close>) of the payment status
  check is read as success with status \<open>COMPLETED\<close>.
\<close>

theorem intent_timeout_is_definitive:
  assumes valid: "validateOrderCreation r"
      and hdr: "truthy (idemKeyHeader r)"
      and k: "k = the (idemKeyHeader r)" and sc: "sc = cancelPending e k s"
      and key: "key = compositeKey ''phonepe'' k"
      and meth: "reqMethod r = ''phonepe''"
      and fresh: "findOne (\<lambda>d. orderId d = newOrderId e \<or> idempotencyKey d = key) sc = None"
      and cart: "cartItems r \<noteq> []" and ship: "hasShipping r"
      and prep: "prepareItems True (cartItems r) (products sc) = Inr (ps, its)"
      and tmo: "ppIntent e = IntentTimeout"
      and c: "c = buildOrder e r ''phonepe'' key its Canceled Failed None None"
  shows "(schemaValid c \<longrightarrow>
            createOrder e r s =
              (Json 200 [(''success'', ''false''), (''phonepeTimeout'', ''true''),
                         (''orderId'', newOrderId e),
                         (''redirectTo'',
                          ''/store/order-confirmation.html?error=phonepe_timeout&orderId='' @ newOrderId e)],
               sc\<lparr>orders := orders sc @ [c\<lparr>oid := length (orders sc)\<rparr>]\<rparr>))
       \<and> (\<not> schemaValid c \<longrightarrow>
            createOrder e r s = (Json 500 [(''success'', ''false''), (''errorType'', ''phonepe_error'')], sc))
       \<and> products (snd (createOrder e r s)) = products sc
       \<and> (\<forall>d \<in> set (orders (snd (createOrder e r s))).
             idempotencyKey d = key \<longrightarrow> orderStatus d = Canceled \<and> paymentStatus d = Failed)
       \<and> checkPaymentStatus (StatusError (Some ''ECONNABORTED'') m) =
             \<lparr>success = True, stStatus = Some ''COMPLETED'', stCode = Some ''TIMEOUT_ASSUMED_SUCCESS''\<rparr>"
proof -
  have uf: "uniqueFree c sc"
    using fresh by (simp add: uniqueFree_def findOne_def c buildOrder_def)
  have nok: "\<forall>d \<in> set (orders sc). idempotencyKey d \<noteq> key"
    using fresh by (auto simp: findOne_def find_None_iff)
  then have nodup: "findOne (\<lambda>d. idempotencyKey d = key) sc = None"
    by (simp add: findOne_def find_None_iff)
  have co: "createOrder e r s =
        (case insertOrder c sc of
           Some s2 \<Rightarrow> (Json 200 [(''success'', ''false''), (''phonepeTimeout'', ''true''),
                         (''orderId'', newOrderId e),
                         (''redirectTo'',
                          ''/store/order-confirmation.html?error=phonepe_timeout&orderId='' @ newOrderId e)], s2)
         | None \<Rightarrow> (Json 500 [(''success'', ''false''), (''errorType'', ''phonepe_error'')], sc))"
    using meth fresh nodup prep tmo
    by (simp add: createOrder_checked [OF valid hdr] k[symmetric] key[symmetric] sc[symmetric]
          isGateway_def phonepeBranch_def c)
  show ?thesis
  proof (cases "schemaValid c")
    case True
    then show ?thesis using co uf nok
      by (auto simp: insertOrder_def c buildOrder_def)
  next
    case False
    then show ?thesis using co nok by (auto simp: insertOrder_def)
  qed
qed

theorem intent_timeout_is_definitive_witness:
  "fst (createOrder (firstEnv\<lparr>ppIntent := IntentTimeout\<rparr>) guestCart shop) =
     Json 200 [(''success'', ''false''), (''phonepeTimeout'', ''true''),
               (''orderId'', ''ORD-20250101-1''),
               (''redirectTo'',
                ''/store/order-confirmation.html?error=phonepe_timeout&orderId=ORD-20250101-1'')]
   \<and> map orderStatus (orders (snd (createOrder (firstEnv\<lparr>ppIntent := IntentTimeout\<rparr>) guestCart shop)))
       = [Canceled]
   \<and> map paymentStatus (orders (snd (createOrder (firstEnv\<lparr>ppIntent := IntentTimeout\<rparr>) guestCart shop)))
       = [Failed]"
proof -
  let ?e = "firstEnv\<lparr>ppIntent := IntentTimeout\<rparr>"
  let ?c = "buildOrder ?e guestCart ''phonepe'' ''phonepe_K1'' [twoApples] Canceled Failed None None"
  have h0: "validateOrderCreation guestCart" by (rule guestCart_validates)
  have h1: "truthy (idemKeyHeader guestCart)" by (simp add: guestCart_def)
  have h2: "''K1'' = the (idemKeyHeader guestCart)" by (simp add: guestCart_def)
  have h3: "shop = cancelPending ?e ''K1'' shop"
    by (simp add: cancelPending_def firstEnv_def regexK1_def shop_def)
  have h4: "''phonepe_K1'' = compositeKey ''phonepe'' ''K1''" by (simp add: compositeKey_def)
  have h5: "reqMethod guestCart = ''phonepe''" by (simp add: guestCart_def)
  have h6: "findOne (\<lambda>d. orderId d = newOrderId ?e \<or> idempotencyKey d = ''phonepe_K1'') shop = None"
    by (simp add: findOne_def shop_def)
  have h7: "cartItems guestCart \<noteq> []" by (simp add: guestCart_def)
  have h8: "hasShipping guestCart" by (simp add: guestCart_def)
  have h9: "prepareItems True (cartItems guestCart) (products shop) = Inr (products shop, [twoApples])"
    by (simp add: guestCart_def shop_def prepareItems_guestCart del: prepareItems.simps)
  have h10: "ppIntent ?e = IntentTimeout" by simp
  have sv: "schemaValid ?c"
    by (simp add: schemaValid_def buildOrder_def contactFilled_def userDetails_def guestCart_def
          alice_def firstEnv_def)
  have "createOrder ?e guestCart shop =
          (Json 200 [(''success'', ''false''), (''phonepeTimeout'', ''true''),
                     (''orderId'', newOrderId ?e),
                     (''redirectTo'',
                      ''/store/order-confirmation.html?error=phonepe_timeout&orderId='' @ newOrderId ?e)],
           shop\<lparr>orders := orders shop @ [?c\<lparr>oid := length (orders shop)\<rparr>]\<rparr>)"
    using intent_timeout_is_definitive [OF h0 h1 h2 h3 h4 h5 h6 h7 h8 h9 h10 refl] sv by blast
  then show ?thesis
    by (simp add: buildOrder_def firstEnv_def shop_def)
qed

text \<open>The claim as written fails where the synthesized order is rejected by the schema: a
  guest checkout that carries no contact block times out, and nothing is persisted.\<close>

theorem intent_timeout_counterexample:
  "fst (createOrder (firstEnv\<lparr>ppIntent := IntentTimeout\<rparr>) (guestCart\<lparr>userInfo := None\<rparr>) shop) =
     Json 500 [(''success'', ''false''), (''errorType'', ''phonepe_error'')]
   \<and> orders (snd (createOrder (firstEnv\<lparr>ppIntent := IntentTimeout\<rparr>) (guestCart\<lparr>userInfo := None\<rparr>) shop))
       = []"
proof -
  have hdr: "truthy (idemKeyHeader (guestCart\<lparr>userInfo := None\<rparr>))"
    by (simp add: guestCart_def)
  have "createOrder (firstEnv\<lparr>ppIntent := IntentTimeout\<rparr>) (guestCart\<lparr>userInfo := None\<rparr>) shop
          = (Json 500 [(''success'', ''false''), (''errorType'', ''phonepe_error'')], shop)"
    unfolding createOrder_checked [OF guestCart_validates(4) hdr]
    by (simp add: guestCart_def cancelPending_def firstEnv_def regexK1_def shop_def
          prepareItems_guestCart run_defs del: prepareItems.simps)
  then show ?thesis by (simp add: shop_def)
qed

lemma direct_never_saved:
  "\<not> isGateway pm \<Longrightarrow> insertOrder (buildOrder e r pm key its os ps t m) s = None"
  by (simp add: insertOrder_def schemaValid_def buildOrder_def isGateway_def)

text \<open>
  Claim C6, as amended, on the Order collection (what create-order does to stock is left
  aside here).  For a request that passes the validators and carries a caller key, with
  \<open>sc\<close> the store the pending-order clean-up left: under Razorpay no order is inserted,
  whatever the outcome.  Under PhonePe, once the provider intent exists the order is
  inserted at once as \<open>Pending\<close> / \<open>Pending\<close>, before any payment confirmation, when
  the Order schema accepts the document; when it does not, the answer is 500 and no order
  is inserted.  Under every other method the Order schema, which admits the two gateways
  only, rejects the document: no order is inserted and the handler never answers 201.
\<close>

theorem create_order_row_policy:
  "(validateOrderCreation r \<and> truthy (idemKeyHeader r) \<and> reqMethod r = ''razorpay'' \<longrightarrow>
       orders (snd (createOrder e r s)) = orders (cancelPending e (the (idemKeyHeader r)) s))
   \<and> (validateOrderCreation r \<and> truthy (idemKeyHeader r) \<and> reqMethod r = ''phonepe'' \<and>
       sc = cancelPending e (the (idemKeyHeader r)) s \<and>
       key = compositeKey ''phonepe'' (the (idemKeyHeader r)) \<and>
       findOne (\<lambda>d. orderId d = newOrderId e \<or> idempotencyKey d = key) sc = None \<and>
       prepareItems True (cartItems r) (products sc) = Inr (ps, its) \<and>
       ppIntent e = IntentOk txn mtxn url \<and>
       c = buildOrder e r ''phonepe'' key its Pending PayPending (Some txn) (Some mtxn) \<longrightarrow>
       (schemaValid c \<longrightarrow>
          fst (createOrder e r s) =
            Json 200 [(''success'', ''true''), (''phonePeTransactionId'', txn),
                      (''paymentUrl'', url), (''orderId'', newOrderId e)] \<and>
          orders (snd (createOrder e r s)) = orders sc @ [c\<lparr>oid := length (orders sc)\<rparr>] \<and>
          orderStatus c = Pending \<and> paymentStatus c = PayPending) \<and>
       (\<not> schemaValid c \<longrightarrow>
          fst (createOrder e r s) = Json 500 [(''success'', ''false''), (''errorType'', ''phonepe_error'')] \<and>
          orders (snd (createOrder e r s)) = orders sc))
   \<and> (validateOrderCreation r \<and> truthy (idemKeyHeader r) \<and> \<not> isGateway (reqMethod r) \<longrightarrow>
       orders (snd (createOrder e r s)) = orders (cancelPending e (the (idemKeyHeader r)) s) \<and>
       (\<forall>flds. fst (createOrder e r s) \<noteq> Json 201 flds))"
proof (intro conjI impI)
  assume a: "validateOrderCreation r \<and> truthy (idemKeyHeader r) \<and> reqMethod r = ''razorpay''"
  then have v: "validateOrderCreation r" and h: "truthy (idemKeyHeader r)" by blast+
  from a show "orders (snd (createOrder e r s)) = orders (cancelPending e (the (idemKeyHeader r)) s)"
    by (auto simp: createOrder_checked [OF v h] razorpayBranch_def
             split: option.splits sum.splits rzpCreateResult.splits)
next
  assume a: "validateOrderCreation r \<and> truthy (idemKeyHeader r) \<and> reqMethod r = ''phonepe'' \<and>
       sc = cancelPending e (the (idemKeyHeader r)) s \<and>
       key = compositeKey ''phonepe'' (the (idemKeyHeader r)) \<and>
       findOne (\<lambda>d. orderId d = newOrderId e \<or> idempotencyKey d = key) sc = None \<and>
       prepareItems True (cartItems r) (products sc) = Inr (ps, its) \<and>
       ppIntent e = IntentOk txn mtxn url \<and>
       c = buildOrder e r ''phonepe'' key its Pending PayPending (Some txn) (Some mtxn)"
  then have v: "validateOrderCreation r" and h: "truthy (idemKeyHeader r)"
    and meth: "reqMethod r = ''phonepe''"
    and sc: "sc = cancelPending e (the (idemKeyHeader r)) s"
    and key: "key = compositeKey ''phonepe'' (the (idemKeyHeader r))"
    and fresh: "findOne (\<lambda>d. orderId d = newOrderId e \<or> idempotencyKey d = key) sc = None"
    and prep: "prepareItems True (cartItems r) (products sc) = Inr (ps, its)"
    and ok: "ppIntent e = IntentOk txn mtxn url"
    and c: "c = buildOrder e r ''phonepe'' key its Pending PayPending (Some txn) (Some mtxn)"
    by blast+
  have nodup: "findOne (\<lambda>d. idempotencyKey d = key) sc = None"
    using fresh by (auto simp: findOne_def find_None_iff)
  have uf: "uniqueFree c (sc\<lparr>products := deductStock its ps\<rparr>)"
    using fresh by (simp add: uniqueFree_def findOne_def c buildOrder_def)
  have co: "createOrder e r s =
          (case insertOrder c (sc\<lparr>products := deductStock its ps\<rparr>) of
             Some s2 \<Rightarrow> (Json 200 [(''success'', ''true''), (''phonePeTransactionId'', txn),
                           (''paymentUrl'', url), (''orderId'', newOrderId e)], s2)
           | None \<Rightarrow> (Json 500 [(''success'', ''false''), (''errorType'', ''phonepe_error'')], sc))"
    using meth fresh nodup prep ok
    by (simp add: createOrder_checked [OF v h] key[symmetric] sc[symmetric] isGateway_def
          phonepeBranch_def c)
  {
    assume sv: "schemaValid c"
    show "fst (createOrder e r s) =
            Json 200 [(''success'', ''true''), (''phonePeTransactionId'', txn),
                      (''paymentUrl'', url), (''orderId'', newOrderId e)]"
      using co uf sv by (simp add: insertOrder_def)
    show "orders (snd (createOrder e r s)) = orders sc @ [c\<lparr>oid := length (orders sc)\<rparr>]"
      using co uf sv by (simp add: insertOrder_def)
    show "orderStatus c = Pending" by (simp add: c buildOrder_def)
    show "paymentStatus c = PayPending" by (simp add: c buildOrder_def)
  }
  {
    assume nsv: "\<not> schemaValid c"
    show "fst (createOrder e r s) = Json 500 [(''success'', ''false''), (''errorType'', ''phonepe_error'')]"
      using co nsv by (simp add: insertOrder_def)
    show "orders (snd (createOrder e r s)) = orders sc"
      using co nsv by (simp add: insertOrder_def)
  }
next
  assume a: "validateOrderCreation r \<and> truthy (idemKeyHeader r) \<and> \<not> isGateway (reqMethod r)"
  then have v: "validateOrderCreation r" and h: "truthy (idemKeyHeader r)" by blast+
  from a show "orders (snd (createOrder e r s)) = orders (cancelPending e (the (idemKeyHeader r)) s)"
    by (auto simp: createOrder_checked [OF v h] directBranch_def direct_never_saved isGateway_def
             split: option.splits sum.splits)
  from a show "\<forall>flds. fst (createOrder e r s) \<noteq> Json 201 flds"
    by (auto simp: createOrder_checked [OF v h] directBranch_def direct_never_saved isGateway_def
             split: option.splits sum.splits dest: prepareItems_error)
qed

theorem create_order_row_policy_witness:
  "orders (snd (createOrder firstEnv (guestCart\<lparr>reqMethod := ''razorpay''\<rparr>) shop)) = []
   \<and> fst (createOrder firstEnv guestCart shop) =
       Json 200 [(''success'', ''true''), (''phonePeTransactionId'', ''OMO1''),
                 (''paymentUrl'', ''https://pay.example/1''), (''orderId'', ''ORD-20250101-1'')]
   \<and> orders (snd (createOrder firstEnv guestCart shop)) = [pendingOrder]
   \<and> orders (snd (createOrder firstEnv (guestCart\<lparr>reqMethod := ''cod''\<rparr>) shop)) = []"
proof -
  let ?c = "buildOrder firstEnv guestCart ''phonepe'' ''phonepe_K1'' [twoApples] Pending PayPending
              (Some ''OMO1'') (Some ''ORD_1'')"
  have a: "orders (snd (createOrder firstEnv (guestCart\<lparr>reqMethod := ''razorpay''\<rparr>) shop)) = []"
    using create_order_row_policy [where r = "guestCart\<lparr>reqMethod := ''razorpay''\<rparr>"
            and e = firstEnv and s = shop, THEN conjunct1]
    by (simp add: guestCart_validates)
       (simp add: guestCart_def cancelPending_def firstEnv_def regexK1_def shop_def)
  have sv: "schemaValid ?c"
    by (simp add: schemaValid_def buildOrder_def contactFilled_def userDetails_def guestCart_def
          alice_def firstEnv_def)
  have hyp: "validateOrderCreation guestCart \<and> truthy (idemKeyHeader guestCart) \<and>
       reqMethod guestCart = ''phonepe'' \<and>
       shop = cancelPending firstEnv (the (idemKeyHeader guestCart)) shop \<and>
       ''phonepe_K1'' = compositeKey ''phonepe'' (the (idemKeyHeader guestCart)) \<and>
       findOne (\<lambda>d. orderId d = newOrderId firstEnv \<or> idempotencyKey d = ''phonepe_K1'') shop = None \<and>
       prepareItems True (cartItems guestCart) (products shop) = Inr (products shop, [twoApples]) \<and>
       ppIntent firstEnv = IntentOk ''OMO1'' ''ORD_1'' ''https://pay.example/1'' \<and>
       ?c = ?c"
  proof (intro conjI)
    show "validateOrderCreation guestCart" by (rule guestCart_validates)
    show "shop = cancelPending firstEnv (the (idemKeyHeader guestCart)) shop"
      by (simp add: guestCart_def cancelPending_shop)
    show "prepareItems True (cartItems guestCart) (products shop) = Inr (products shop, [twoApples])"
      by (simp add: guestCart_def shop_def prepareItems_guestCart del: prepareItems.simps)
    show "findOne (\<lambda>d. orderId d = newOrderId firstEnv \<or> idempotencyKey d = ''phonepe_K1'') shop = None"
      by (simp add: findOne_def shop_def)
  qed (simp_all add: guestCart_def compositeKey_def firstEnv_def)
  have c: "?c\<lparr>oid := 0\<rparr> = pendingOrder"
    by (simp add: buildOrder_def userDetails_def guestCart_def firstEnv_def pendingOrder_def
          jsAdd_def jsSub_def nearestDouble_200)
  have b: "fst (createOrder firstEnv guestCart shop) =
             Json 200 [(''success'', ''true''), (''phonePeTransactionId'', ''OMO1''),
                       (''paymentUrl'', ''https://pay.example/1''), (''orderId'', ''ORD-20250101-1'')]
           \<and> orders (snd (createOrder firstEnv guestCart shop)) = [pendingOrder]"
    using create_order_row_policy [where r = guestCart and e = firstEnv and s = shop
            and sc = shop and key = "''phonepe_K1''" and ps = "products shop" and its = "[twoApples]"
            and txn = "''OMO1''" and mtxn = "''ORD_1''" and url = "''https://pay.example/1''"
            and c = ?c, THEN conjunct2, THEN conjunct1, THEN mp, OF hyp] sv c
    by (simp add: shop_def firstEnv_def)
  have d: "orders (snd (createOrder firstEnv (guestCart\<lparr>reqMethod := ''cod''\<rparr>) shop)) = []"
    using create_order_row_policy [where r = "guestCart\<lparr>reqMethod := ''cod''\<rparr>"
            and e = firstEnv and s = shop, THEN conjunct2, THEN conjunct2]
    by (simp add: guestCart_validates)
       (simp add: guestCart_def cancelPending_def firstEnv_def regexK1_def shop_def isGateway_def)
  from a b d show ?thesis by blast
qed

text \<open>The claim as written fails for PhonePe, whose order is inserted as pending at
  create-order time, before any confirmation by the provider, and for a method outside the
  two gateways, whose order is never inserted: the handler throws the schema's validation
  error.\<close>

theorem create_order_row_policy_counterexample:
  "map (\<lambda>d. (paymentMethod d, orderStatus d, paymentStatus d))
       (orders (snd (createOrder firstEnv guestCart shop)))
     = [(''phonepe'', Pending, PayPending)]
   \<and> fst (createOrder firstEnv (guestCart\<lparr>reqMethod := ''cod''\<rparr>) shop) = Thrown ''ValidationError''
   \<and> orders (snd (createOrder firstEnv (guestCart\<lparr>reqMethod := ''cod''\<rparr>) shop)) = []"
proof -
  have h1: "truthy (idemKeyHeader guestCart)" by (simp add: guestCart_def)
  have h2: "truthy (idemKeyHeader (guestCart\<lparr>reqMethod := ''cod''\<rparr>))" by (simp add: guestCart_def)
  have a: "orders (snd (createOrder firstEnv guestCart shop)) = [pendingOrder]"
    unfolding createOrder_checked [OF guestCart_validates(1) h1]
    by (simp add: guestCart_def cancelPending_def prepareItems_guestCart run_defs data_defs
          del: prepareItems.simps)
  have b: "createOrder firstEnv (guestCart\<lparr>reqMethod := ''cod''\<rparr>) shop
             = (Thrown ''ValidationError'', shop)"
    unfolding createOrder_checked [OF guestCart_validates(3) h2]
    by (simp add: guestCart_def cancelPending_def prepareItems_guestCart run_defs data_defs
          del: prepareItems.simps)
  show ?thesis by (simp add: a b) (simp add: pendingOrder_def shop_def)
qed

section \<open>Idempotency guard\<close>

lemma cancelEach_orders:
  "orders (cancelEach ds s) = map (cancelMark (oid ` set ds)) (orders s)"
proof (induction ds arbitrary: s)
  case Nil
  show ?case by (simp add: cancelMark_def)
next
  case (Cons d ds)
  show ?case
    by (simp add: Cons.IH setStatusById_def cancelMark_def comp_def)
qed

lemma cancelMark_keys [simp]:
  "idempotencyKey (cancelMark I x) = idempotencyKey x" "orderId (cancelMark I x) = orderId x"
  "oid (cancelMark I x) = oid x"
  by (simp_all add: cancelMark_def)

lemma cancelMark_empty: "cancelMark {} = (\<lambda>x. x)"
  by (simp add: cancelMark_def fun_eq_iff)

text \<open>The clean-up in closed form: it marks the orders whose \<open>_id\<close> is in some set of
  \<open>_id\<close>s of orders that are pending in both statuses.\<close>

lemma cancelPending_orders:
  "\<exists>I. orders (cancelPending e k s) = map (cancelMark I) (orders s) \<and>
       I \<subseteq> oid ` {d \<in> set (orders s). paymentStatus d = PayPending \<and> orderStatus d = Pending}"
proof (cases "keyRegex e k")
  case None
  then have "orders (cancelPending e k s) = map (cancelMark {}) (orders s)"
    by (simp add: cancelPending_def cancelMark_empty)
  then show ?thesis by blast
next
  case (Some m)
  then have "orders (cancelPending e k s) =
               map (cancelMark (oid ` set (filter (supersededBy m) (orders s)))) (orders s)"
    by (simp add: cancelPending_def cancelEach_orders)
  moreover have "oid ` set (filter (supersededBy m) (orders s))
                   \<subseteq> oid ` {d \<in> set (orders s). paymentStatus d = PayPending \<and> orderStatus d = Pending}"
    by (auto simp: supersededBy_def)
  ultimately show ?thesis by blast
qed

lemma cancelPending_keys:
  "map idempotencyKey (orders (cancelPending e k s)) = map idempotencyKey (orders s)"
  "map orderId (orders (cancelPending e k s)) = map orderId (orders s)"
  using cancelPending_orders [of e k s] by (auto simp: comp_def)

lemma find_map_stable:
  "(\<And>x. P (g x) = P x) \<Longrightarrow> find P (map g xs) = map_option g (find P xs)"
  by (induction xs) auto

lemma count_by_keys:
  "length (filter (\<lambda>d. idempotencyKey d = key) xs) = length (filter (\<lambda>k. k = key) (map idempotencyKey xs))"
  by (induction xs) auto

lemma find_in_set: "find P xs = Some x \<Longrightarrow> x \<in> set xs \<and> P x"
  by (induction xs) (auto split: if_splits)

lemma createOrder_duplicate:
  assumes v: "validateOrderCreation r" and h: "truthy (idemKeyHeader r)"
      and f: "find (\<lambda>d. idempotencyKey d = compositeKey (reqMethod r) (the (idemKeyHeader r))) (orders s) = Some ex"
  shows "\<exists>I. I \<subseteq> oid ` {d \<in> set (orders s). paymentStatus d = PayPending \<and> orderStatus d = Pending} \<and>
             createOrder e r s =
               (Json 409 [(''message'', ''Order already exists with this idempotency key.''),
                          (''orderId'', orderId ex),
                          (''status'', showOrdStatus (orderStatus (cancelMark I ex)))],
                cancelPending e (the (idemKeyHeader r)) s)"
proof -
  obtain I where I: "orders (cancelPending e (the (idemKeyHeader r)) s) = map (cancelMark I) (orders s)"
    and sub: "I \<subseteq> oid ` {d \<in> set (orders s). paymentStatus d = PayPending \<and> orderStatus d = Pending}"
    using cancelPending_orders by blast
  have "findOne (\<lambda>d. idempotencyKey d = compositeKey (reqMethod r) (the (idemKeyHeader r)))
          (cancelPending e (the (idemKeyHeader r)) s) = Some (cancelMark I ex)"
    using f by (simp add: findOne_def I find_map_stable)
  then have "createOrder e r s =
               (Json 409 [(''message'', ''Order already exists with this idempotency key.''),
                          (''orderId'', orderId ex),
                          (''status'', showOrdStatus (orderStatus (cancelMark I ex)))],
                cancelPending e (the (idemKeyHeader r)) s)"
    by (simp add: createOrder_checked [OF v h])
  with sub show ?thesis by blast
qed

lemma createOrder_appends:
  "orders (snd (createOrder e r s)) = orders s \<or>
   orders (snd (createOrder e r s)) = orders (cancelPending e (the (idemKeyHeader r)) s) \<or>
   (\<exists>d. orders (snd (createOrder e r s)) = orders (cancelPending e (the (idemKeyHeader r)) s) @ [d])"
  by (auto simp: createOrder_def Let_def razorpayBranch_def phonepeBranch_def directBranch_def
        insertOrder_def
      split: option.splits sum.splits rzpCreateResult.splits intentResult.splits if_splits)

lemma createOrder_count:
  assumes "find (\<lambda>d. idempotencyKey d = key) (orders s) = None"
  shows "length (filter (\<lambda>d. idempotencyKey d = key) (orders (snd (createOrder e r s)))) \<le> 1"
proof -
  have z: "filter (\<lambda>d. idempotencyKey d = key) (orders s) = []"
    using assms by (auto simp: find_None_iff filter_empty_conv)
  have "length (filter (\<lambda>d. idempotencyKey d = key) (orders (cancelPending e (the (idemKeyHeader r)) s)))
          = length (filter (\<lambda>d. idempotencyKey d = key) (orders s))"
    by (simp only: count_by_keys cancelPending_keys)
  then have "length (filter (\<lambda>d. idempotencyKey d = key) (orders (cancelPending e (the (idemKeyHeader r)) s))) = 0"
    using z by simp
  then show ?thesis using createOrder_appends [of e r s] z by auto
qed

lemma createOrder_keeps_count:
  assumes "find (\<lambda>d. idempotencyKey d = compositeKey (reqMethod r) (the (idemKeyHeader r))) (orders s) = Some ex"
  shows "map idempotencyKey (orders (snd (createOrder e r s))) = map idempotencyKey (orders s)"
proof (cases "validateOrderCreation r \<and> truthy (idemKeyHeader r)")
  case True
  then show ?thesis
    using createOrder_duplicate [OF _ _ assms, of e] by (auto simp: cancelPending_keys)
next
  case False
  then have "snd (createOrder e r s) = s" by (auto simp: createOrder_def)
  then show ?thesis by simp
qed

text \<open>
  Claim C1, as amended.  A create-order request is first put through the validators and
  the test for the \<open>X-Idempotency-Key\<close> header.  For a request that passes both and whose
  composite key (payment method, underscore, caller key) matches a persisted order, the
  handler answers 409 with that order's \<open>orderId\<close> and an order status, which is the
  status of that order when the order is not pending in both statuses, \<open>_id\<close>s being
  unique.  No order is inserted: the order identifiers and the idempotency keys of the
  persisted orders are the same after the request.  The answer and the store do not depend
  on what the two gateways, the order-number generator, the User collection or the clock
  would have said, so the duplicate check precedes every gateway call.  Two create-order
  calls with the same request leave at most one order with its composite key.
\<close>

theorem duplicate_request_conflict:
  "(validateOrderCreation r \<and> truthy (idemKeyHeader r) \<and>
    find (\<lambda>d. idempotencyKey d = compositeKey (reqMethod r) (the (idemKeyHeader r))) (orders s) = Some ex
    \<longrightarrow>
      (\<exists>st. fst (createOrder e r s) =
               Json 409 [(''message'', ''Order already exists with this idempotency key.''),
                         (''orderId'', orderId ex), (''status'', st)]) \<and>
      (distinct (map oid (orders s)) \<and> \<not> (paymentStatus ex = PayPending \<and> orderStatus ex = Pending) \<longrightarrow>
         fst (createOrder e r s) =
           Json 409 [(''message'', ''Order already exists with this idempotency key.''),
                     (''orderId'', orderId ex), (''status'', showOrdStatus (orderStatus ex))]) \<and>
      map orderId (orders (snd (createOrder e r s))) = map orderId (orders s) \<and>
      map idempotencyKey (orders (snd (createOrder e r s))) = map idempotencyKey (orders s) \<and>
      createOrder (e\<lparr>newOrderId := n, lookupUser := u, rzpCreate := a, ppIntent := b, now := t\<rparr>) r s
        = createOrder e r s)
   \<and> (find (\<lambda>d. idempotencyKey d = compositeKey (reqMethod r) (the (idemKeyHeader r))) (orders sz) = None
    \<longrightarrow>
      length (filter (\<lambda>d. idempotencyKey d = compositeKey (reqMethod r) (the (idemKeyHeader r)))
                (orders (snd (createOrder eb r (snd (createOrder ea r sz)))))) \<le> 1)"
proof (intro conjI impI)
  let ?key = "compositeKey (reqMethod r) (the (idemKeyHeader r))"
  let ?msg = "(''message'', ''Order already exists with this idempotency key.'')"
  assume a: "validateOrderCreation r \<and> truthy (idemKeyHeader r) \<and>
    find (\<lambda>d. idempotencyKey d = ?key) (orders s) = Some ex"
  then have v: "validateOrderCreation r" and h: "truthy (idemKeyHeader r)"
    and f: "find (\<lambda>d. idempotencyKey d = ?key) (orders s) = Some ex"
    by blast+
  obtain I where sub: "I \<subseteq> oid ` {d \<in> set (orders s). paymentStatus d = PayPending \<and> orderStatus d = Pending}"
    and co: "createOrder e r s =
               (Json 409 [?msg, (''orderId'', orderId ex),
                          (''status'', showOrdStatus (orderStatus (cancelMark I ex)))],
                cancelPending e (the (idemKeyHeader r)) s)"
    using createOrder_duplicate [OF v h f] by blast
  show "\<exists>st. fst (createOrder e r s) = Json 409 [?msg, (''orderId'', orderId ex), (''status'', st)]"
    using co by simp
  show "map orderId (orders (snd (createOrder e r s))) = map orderId (orders s)"
    using co by (simp add: cancelPending_keys)
  show "map idempotencyKey (orders (snd (createOrder e r s))) = map idempotencyKey (orders s)"
    using co by (simp add: cancelPending_keys)
  show "createOrder (e\<lparr>newOrderId := n, lookupUser := u, rzpCreate := a, ppIntent := b, now := t\<rparr>) r s
          = createOrder e r s"
  proof -
    have cp: "cancelPending (e\<lparr>newOrderId := n, lookupUser := u, rzpCreate := a, ppIntent := b, now := t\<rparr>)
                (the (idemKeyHeader r)) s = cancelPending e (the (idemKeyHeader r)) s"
      by (simp add: cancelPending_def)
    obtain ex' where "findOne (\<lambda>d. idempotencyKey d = ?key) (cancelPending e (the (idemKeyHeader r)) s) = Some ex'"
      using f cancelPending_orders [of e "the (idemKeyHeader r)" s]
      by (auto simp: findOne_def find_map_stable)
    then show ?thesis
      by (simp add: createOrder_checked [OF v h] cp)
  qed
  {
    assume b: "distinct (map oid (orders s)) \<and> \<not> (paymentStatus ex = PayPending \<and> orderStatus ex = Pending)"
    have exin: "ex \<in> set (orders s)" using f by (auto dest: find_in_set)
    have "oid ex \<notin> I"
    proof
      assume "oid ex \<in> I"
      then obtain d where d: "d \<in> set (orders s)" "paymentStatus d = PayPending" "orderStatus d = Pending"
        "oid d = oid ex"
        using sub by auto
      from b have "inj_on oid (set (orders s))" by (simp add: distinct_map)
      with d(1,4) exin have "d = ex" by (auto dest: inj_onD)
      with d b show False by simp
    qed
    then show "fst (createOrder e r s) =
           Json 409 [?msg, (''orderId'', orderId ex), (''status'', showOrdStatus (orderStatus ex))]"
      using co by (simp add: cancelMark_def)
  }
next
  let ?key = "compositeKey (reqMethod r) (the (idemKeyHeader r))"
  let ?mid = "snd (createOrder ea r sz)"
  assume none: "find (\<lambda>d. idempotencyKey d = ?key) (orders sz) = None"
  then have one: "length (filter (\<lambda>d. idempotencyKey d = ?key) (orders ?mid)) \<le> 1"
    by (rule createOrder_count)
  show "length (filter (\<lambda>d. idempotencyKey d = ?key) (orders (snd (createOrder eb r ?mid)))) \<le> 1"
  proof (cases "find (\<lambda>d. idempotencyKey d = ?key) (orders ?mid)")
    case None
    then show ?thesis by (rule createOrder_count)
  next
    case (Some ex)
    have "length (filter (\<lambda>d. idempotencyKey d = ?key) (orders (snd (createOrder eb r ?mid))))
            = length (filter (\<lambda>d. idempotencyKey d = ?key) (orders ?mid))"
      by (simp only: count_by_keys createOrder_keeps_count [OF Some])
    then show ?thesis using one by simp
  qed
qed

theorem duplicate_request_conflict_witness:
  "fst (createOrder firstEnv guestCart (shop\<lparr>orders := [settledOrder]\<rparr>)) =
     Json 409 [(''message'', ''Order already exists with this idempotency key.''),
               (''orderId'', ''ORD-20250101-1''), (''status'', ''Processing'')]
   \<and> map orderId (orders (snd (createOrder firstEnv guestCart (shop\<lparr>orders := [settledOrder]\<rparr>))))
       = [''ORD-20250101-1'']
   \<and> createOrder (firstEnv\<lparr>newOrderId := ''ORD-20250101-9'', lookupUser := Map.empty,
                             rzpCreate := RzpCreateFailed ''down'', ppIntent := IntentTimeout,
                             now := 5\<rparr>) guestCart (shop\<lparr>orders := [settledOrder]\<rparr>)
       = createOrder firstEnv guestCart (shop\<lparr>orders := [settledOrder]\<rparr>)
   \<and> length (filter (\<lambda>d. idempotencyKey d = ''phonepe_K1'')
               (orders (snd (createOrder (firstEnv\<lparr>newOrderId := ''ORD-20250101-2''\<rparr>) guestCart
                               (snd (createOrder firstEnv guestCart shop)))))) \<le> 1"
proof -
  have h: "validateOrderCreation guestCart \<and> truthy (idemKeyHeader guestCart) \<and>
      find (\<lambda>d. idempotencyKey d = compositeKey (reqMethod guestCart) (the (idemKeyHeader guestCart)))
        (orders (shop\<lparr>orders := [settledOrder]\<rparr>)) = Some settledOrder"
    by (simp add: guestCart_validates)
       (simp add: guestCart_def compositeKey_def settledOrder_def pendingOrder_def)
  have g: "distinct (map oid (orders (shop\<lparr>orders := [settledOrder]\<rparr>))) \<and>
           \<not> (paymentStatus settledOrder = PayPending \<and> orderStatus settledOrder = Pending)"
    by (simp add: settledOrder_def)
  have n: "find (\<lambda>d. idempotencyKey d = compositeKey (reqMethod guestCart) (the (idemKeyHeader guestCart)))
        (orders shop) = None"
    by (simp add: shop_def)
  have k: "compositeKey (reqMethod guestCart) (the (idemKeyHeader guestCart)) = ''phonepe_K1''"
    by (simp add: guestCart_def compositeKey_def)
  note th = duplicate_request_conflict [where r = guestCart and s = "shop\<lparr>orders := [settledOrder]\<rparr>"
              and ex = settledOrder and e = firstEnv and sz = shop and ea = firstEnv
              and eb = "firstEnv\<lparr>newOrderId := ''ORD-20250101-2''\<rparr>"
              and n = "''ORD-20250101-9''" and u = Map.empty and a = "RzpCreateFailed ''down''"
              and b = IntentTimeout and t = 5]
  note first = th [THEN conjunct1, THEN mp, OF h]
  have a: "fst (createOrder firstEnv guestCart (shop\<lparr>orders := [settledOrder]\<rparr>)) =
     Json 409 [(''message'', ''Order already exists with this idempotency key.''),
               (''orderId'', ''ORD-20250101-1''), (''status'', ''Processing'')]"
    using first [THEN conjunct2, THEN conjunct1, THEN mp, OF g]
    by (simp add: settledOrder_def pendingOrder_def)
  have b: "map orderId (orders (snd (createOrder firstEnv guestCart (shop\<lparr>orders := [settledOrder]\<rparr>))))
             = [''ORD-20250101-1'']"
    using first [THEN conjunct2, THEN conjunct2, THEN conjunct1]
    by (simp add: settledOrder_def pendingOrder_def)
  have c: "createOrder (firstEnv\<lparr>newOrderId := ''ORD-20250101-9'', lookupUser := Map.empty,
                             rzpCreate := RzpCreateFailed ''down'', ppIntent := IntentTimeout,
                             now := 5\<rparr>) guestCart (shop\<lparr>orders := [settledOrder]\<rparr>)
       = createOrder firstEnv guestCart (shop\<lparr>orders := [settledOrder]\<rparr>)"
    using first [THEN conjunct2, THEN conjunct2, THEN conjunct2, THEN conjunct2] .
  have d: "length (filter (\<lambda>d. idempotencyKey d = ''phonepe_K1'')
               (orders (snd (createOrder (firstEnv\<lparr>newOrderId := ''ORD-20250101-2''\<rparr>) guestCart
                               (snd (createOrder firstEnv guestCart shop)))))) \<le> 1"
    using th [THEN conjunct2, THEN mp, OF n] by (simp add: k)
  from a b c d show ?thesis by blast
qed

text \<open>The claim as written fails in two places.  The duplicate check is not the first
  check: a request whose composite key matches a persisted order but whose cart is empty is
  answered 400 by the validators.  And two Razorpay calls with one caller key persist no
  order at all, where the claim counts exactly one.\<close>

theorem duplicate_request_counterexample:
  "find (\<lambda>d. idempotencyKey d = ''razorpay_K1'') (orders (shop\<lparr>orders := [razorpaidOrder]\<rparr>))
     = Some razorpaidOrder
   \<and> createOrder firstEnv (guestCart\<lparr>reqMethod := ''razorpay'', cartItems := []\<rparr>)
       (shop\<lparr>orders := [razorpaidOrder]\<rparr>)
     = (Json 400 [(''success'', ''false''), (''message'', ''Validation failed'')],
        shop\<lparr>orders := [razorpaidOrder]\<rparr>)
   \<and> fst (createOrder firstEnv (guestCart\<lparr>reqMethod := ''razorpay''\<rparr>) shop)
     = Json 200 [(''success'', ''true''), (''razorpayOrderId'', ''order_R1''),
                 (''orderId'', ''ORD-20250101-1'')]
   \<and> orders (snd (createOrder firstEnv (guestCart\<lparr>reqMethod := ''razorpay''\<rparr>)
                (snd (createOrder firstEnv (guestCart\<lparr>reqMethod := ''razorpay''\<rparr>) shop)))) = []"
proof -
  have h: "truthy (idemKeyHeader (guestCart\<lparr>reqMethod := ''razorpay''\<rparr>))"
    by (simp add: guestCart_def)
  have a: "find (\<lambda>d. idempotencyKey d = ''razorpay_K1'') (orders (shop\<lparr>orders := [razorpaidOrder]\<rparr>))
             = Some razorpaidOrder"
    by (simp add: razorpaidOrder_def)
  have b: "createOrder firstEnv (guestCart\<lparr>reqMethod := ''razorpay'', cartItems := []\<rparr>)
             (shop\<lparr>orders := [razorpaidOrder]\<rparr>)
           = (Json 400 [(''success'', ''false''), (''message'', ''Validation failed'')],
              shop\<lparr>orders := [razorpaidOrder]\<rparr>)"
    by (simp add: createOrder_def validateOrderCreation_def)
  have c: "createOrder firstEnv (guestCart\<lparr>reqMethod := ''razorpay''\<rparr>) shop
             = (Json 200 [(''success'', ''true''), (''razorpayOrderId'', ''order_R1''),
                          (''orderId'', ''ORD-20250101-1'')], shop)"
    unfolding createOrder_checked [OF guestCart_validates(2) h]
    by (simp add: guestCart_def cancelPending_def prepareItems_guestCart run_defs data_defs
          del: prepareItems.simps)
  have c1: "fst (createOrder firstEnv (guestCart\<lparr>reqMethod := ''razorpay''\<rparr>) shop)
              = Json 200 [(''success'', ''true''), (''razorpayOrderId'', ''order_R1''),
                          (''orderId'', ''ORD-20250101-1'')]"
    by (simp add: c)
  have d: "orders (snd (createOrder firstEnv (guestCart\<lparr>reqMethod := ''razorpay''\<rparr>)
                     (snd (createOrder firstEnv (guestCart\<lparr>reqMethod := ''razorpay''\<rparr>) shop)))) = []"
    by (simp add: c) (simp add: shop_def)
  from a b c1 d show ?thesis by blast
qed

section \<open>Confirmation paths\<close>

lemmas hook_defs =
  phonepeWebhook_def verifyWebhookSignature_def successHook_def toySha_def markPaidWebhook_def
  sendCheckoutSuccessEmail_def customerEmail_def findOne_def setStatusById_def

text \<open>
  Claim C2 asks that a repeated success signal for an order that is already \<open>Paid\<close> leave
  the order, the stock and the confirmation email alone.  The return handler and both
  Razorpay \<open>handlePaymentCaptured\<close> functions test \<open>paymentStatus !== 'Paid'\<close> first; the
  PhonePe webhook does not.  Run on the pending PhonePe order, the same signed success
  notification delivered twice sends the confirmation email twice, and delivered for an
  order that is already paid and shipped it puts the order back to \<open>Processing\<close>.
\<close>

theorem repeated_success_webhook_resends_email:
  "emails (snd (phonepeWebhook toySha ''secret'' successHook (shop\<lparr>orders := [pendingOrder]\<rparr>)))
     = [(''alice@example.com'', ''ORD-20250101-1'')]
   \<and> emails (snd (phonepeWebhook toySha ''secret'' successHook
                (snd (phonepeWebhook toySha ''secret'' successHook (shop\<lparr>orders := [pendingOrder]\<rparr>)))))
     = [(''alice@example.com'', ''ORD-20250101-1''), (''alice@example.com'', ''ORD-20250101-1'')]
   \<and> map orderStatus
        (orders (snd (phonepeWebhook toySha ''secret'' successHook
                   (shop\<lparr>orders := [settledOrder\<lparr>orderStatus := Shipped\<rparr>]\<rparr>))))
     = [Processing]"
  by (simp add: hook_defs data_defs settledOrder_def)

text \<open>The guarded paths, for comparison: on an order that is already \<open>Paid\<close> the Razorpay
  capture handlers change nothing, and the return handler, given a successful status,
  changes nothing either.\<close>

lemma capture_on_paid_is_noop:
  assumes "paymentEntity pl = Some en" and "entNotes en = Some (Some ident)" and "ident \<noteq> []"
      and "findOne (\<lambda>d. Some (orderId d) = Some ident) s = Some d" and "paymentStatus d = Paid"
  shows "handlePaymentCaptured (Some pl) s = Some s"
  using assms by (simp add: handlePaymentCaptured_def)

lemma capture_wh_on_paid_is_noop:
  assumes "paymentEntity pl = Some en" and "entNotes en = Some n"
      and "findOne (\<lambda>d. Some (orderId d) = n) s = Some d" and "paymentStatus d = Paid"
  shows "handlePaymentCaptured_wh notifyOk (Some pl) s = (s, True)"
  using assms by (simp add: handlePaymentCaptured_wh_def)

lemma return_on_paid_is_noop:
  assumes "findOne (\<lambda>d. orderId d = ident) s = Some d" and "paymentStatus d = Paid"
  shows "snd (phonepeReturn provider ident qTxn s) = s"
  using assms by (simp add: phonepeReturn_def Let_def)

subsection \<open>Switching gateways under one caller key\<close>

lemma trace_after_attempt:
  "afterPhonePeAttempt =
     \<lparr>products = [appleId \<mapsto> apple], orders = [pendingOrder], emails = []\<rparr>"
proof -
  have h: "truthy (idemKeyHeader guestCart)" by (simp add: guestCart_def)
  show ?thesis
    unfolding afterPhonePeAttempt_def createOrder_checked [OF guestCart_validates(1) h]
    by (simp add: guestCart_def cancelPending_def prepareItems_guestCart run_defs data_defs
          del: prepareItems.simps)
qed

lemma trace_after_switch:
  "afterRazorpaySwitch =
     \<lparr>products = [appleId \<mapsto> apple],
      orders = [pendingOrder\<lparr>orderStatus := Canceled, paymentStatus := Failed\<rparr>], emails = []\<rparr>"
proof -
  have h: "truthy (idemKeyHeader (guestCart\<lparr>reqMethod := ''razorpay''\<rparr>))"
    by (simp add: guestCart_def)
  show ?thesis
    unfolding afterRazorpaySwitch_def trace_after_attempt
      createOrder_checked [OF guestCart_validates(2) h]
    by (simp add: guestCart_def cancelPending_def prepareItems_guestCart run_defs data_defs
          del: prepareItems.simps)
qed

lemma trace_after_webhook:
  "afterLateWebhook =
     \<lparr>products = [appleId \<mapsto> apple],
      orders = [pendingOrder\<lparr>orderStatus := Processing, paymentStatus := Paid\<rparr>],
      emails = [(''alice@example.com'', ''ORD-20250101-1'')]\<rparr>"
  by (simp add: afterLateWebhook_def trace_after_switch) (simp add: hook_defs data_defs)

text \<open>
  Claim C3: the clean-up of create-order does cancel the pending PhonePe attempt when the
  customer switches to Razorpay under the same caller key.  But the PhonePe webhook does
  not look at the status of the order it finds: the success notification of the abandoned
  attempt turns the cancelled order into a paid one, and the Razorpay verification then
  inserts a second paid order for the same caller key.
\<close>

theorem gateway_switch_two_paid:
  "map (\<lambda>d. (idempotencyKey d, orderStatus d, paymentStatus d)) (orders afterRazorpaySwitch)
     = [(''phonepe_K1'', Canceled, Failed)]
   \<and> map (\<lambda>d. (idempotencyKey d, orderStatus d, paymentStatus d)) (orders afterRazorpayVerify)
     = [(''phonepe_K1'', Processing, Paid), (''razorpay_K1'', Processing, Paid)]"
  by (simp add: trace_after_switch afterRazorpayVerify_def trace_after_webhook)
     (simp add: verifyPayment_def switchVerify_def toyHmac_def findOne_def settleBundle_def
        insertOrder_def schemaValid_def uniqueFree_def paidOrder_def contactFilled_def
        sendCheckoutSuccessEmail_def bundleEmail_def jsOr_def data_defs findById_def
        saveProduct_def)

section \<open>Refunds\<close>

text \<open>
  Claim C4 asks that \<open>totalRefunded\<close> never exceed \<open>finalTotal\<close>.  The partial refund
  route checks the requested amount against the total, but it asks the provider for
  \<open>Math.round(refundAmount * 100)\<close> paise and books the amount the provider reports.  On
  a paid order of 10.006 rupees a refund of 10.006 rupees passes both checks, the provider
  is asked for, and refunds, 1001 paise, and the order is booked with \<open>totalRefunded\<close> at
  10.01 rupees, above its total.  In the other direction the running total is a sum of
  doubles: on an order of 0.30 rupees with 0.10 refunded, a refund of 0.20 rupees is
  refused as exceeding the remaining amount, since the sum of the doubles nearest to 0.1
  and 0.2 lies above the double nearest to 0.3.
\<close>

theorem partial_refund_breaks_bound:
  "fst (refundPartial echoRefund ''ORD-20250101-1'' (Some (5003 / 500))
          (shop\<lparr>orders := [oddTotalOrder]\<rparr>))
     = Json 200 [(''success'', ''true''), (''message'', ''Partial refund processed successfully'')]
   \<and> map (\<lambda>d. (finalTotal d, totalRefunded d, paymentStatus d, orderStatus d))
        (orders (snd (refundPartial echoRefund ''ORD-20250101-1'' (Some (5003 / 500))
                        (shop\<lparr>orders := [oddTotalOrder]\<rparr>))))
     = [(nearestDouble (5003 / 500), nearestDouble (1001 / 100), Refunded, Canceled)]
   \<and> nearestDouble (5003 / 500) < nearestDouble (1001 / 100)
   \<and> fst (refundPartial echoRefund ''ORD-20250101-1'' (Some (2 / 10))
            (shop\<lparr>orders := [thirtyPaiseOrder]\<rparr>))
     = Json 400 [(''success'', ''false''), (''message'', ''Cannot refund: exceeds the remaining amount'')]
   \<and> (1 / 10 + 2 / 10 :: rat) = 3 / 10"
  by code_simp

section \<open>Webhook signatures\<close>

lemma beforeSep_signature:
  "\<forall>c \<in> set sg. c \<noteq> CHR ''#'' \<Longrightarrow> beforeSep (sg @ ''###'' @ idx) = sg"
  by (induction sg) auto

text \<open>Each handler answers a signature mismatch with 400 and leaves the store alone, and
  none of them reads the raw body.\<close>

lemma razorpay_mismatch_rejected:
  "truthy secret \<Longrightarrow> Some (hm (the secret) (rzpJsonBody r)) \<noteq> signatureHeader r \<Longrightarrow>
     razorpayWebhook hm secret r s = (Json 400 [(''status'', ''Signature mismatch'')], s)"
  by (simp add: razorpayWebhook_def)

lemma phonepe_mismatch_rejected:
  "\<not> verifyWebhookSignature sha cs (xVerify w) (jsonBody w) \<Longrightarrow>
     phonepeWebhook sha cs w s =
       (Json 400 [(''success'', ''false''), (''message'', ''Invalid webhook signature.'')], s)"
  by (simp add: phonepeWebhook_def)

lemma raw_body_unread:
  "razorpayWebhook hm secret (r\<lparr>rzpRawBody := x\<rparr>) s = razorpayWebhook hm secret r s"
  "handleRazorpayWebhook hm secret ok (r\<lparr>rzpRawBody := x\<rparr>) s = handleRazorpayWebhook hm secret ok r s"
  "phonepeWebhook sha cs (w\<lparr>rawBody := x\<rparr>) s = phonepeWebhook sha cs w s"
  by (auto simp: razorpayWebhook_def dispatchEvent_def handleRazorpayWebhook_def
        phonepeWebhook_def split: option.splits)

text \<open>
  Claim C7 asks that every webhook handler verify the signature over the raw request
  body, not over a re-serialised form.  The server keeps the raw body for that purpose,
  but all three handlers digest \<open>JSON.stringify(req.body)\<close>.  A Razorpay notification of
  a failed payment whose body was sent with blanks after the punctuation, and signed over
  exactly that body, is answered 400 by both Razorpay handlers; the same notification sent
  and signed in the compact form is answered 200.  A PhonePe notification sent with blanks
  and signed over the text sent is answered 400 as well, although its signature is the one
  \<open>verifyWebhookSignature\<close> accepts for the raw body.
\<close>

theorem webhook_rejects_raw_body_signature:
  "signatureHeader spacedHook = Some (toyHmac ''whsec'' (rzpRawBody spacedHook))
   \<and> razorpayWebhook toyHmac (Some ''whsec'') spacedHook midCheckout
       = (Json 400 [(''status'', ''Signature mismatch'')], midCheckout)
   \<and> handleRazorpayWebhook toyHmac (Some ''whsec'') True spacedHook midCheckout
       = (Json 400 [(''status'', ''Signature mismatch'')], midCheckout)
   \<and> signatureHeader compactHook = Some (toyHmac ''whsec'' (rzpRawBody compactHook))
   \<and> razorpayWebhook toyHmac (Some ''whsec'') compactHook midCheckout
       = (Json 200 [(''status'', ''ok'')], midCheckout)
   \<and> verifyWebhookSignature toySha ''secret'' (xVerify spacedSuccessHook) (rawBody spacedSuccessHook)
   \<and> phonepeWebhook toySha ''secret'' spacedSuccessHook midCheckout
       = (Json 400 [(''success'', ''false''), (''message'', ''Invalid webhook signature.'')],
          midCheckout)"
  by (simp add: razorpayWebhook_def handleRazorpayWebhook_def dispatchEvent_def
        handlePaymentFailed_def spacedHook_def compactHook_def spacedText_def compactText_def
        toyHmac_def quoted_def phonepeWebhook_def verifyWebhookSignature_def
        spacedSuccessHook_def ppSpacedText_def ppCompactText_def toySha_def)

section \<open>Auto-cancel sweep\<close>

lemma cancelOrder_shape:
  "cancelOrder f d s =
     (if updateFails f (oid d) then (s, Inl ''update failed'')
      else (setStatusById (oid d) Canceled Failed s, Inr (OrderAutoCancelled (orderId d))))"
  by (simp add: cancelOrder_def Let_def restoreItems_stores_nothing)

lemma okIds_Nil [simp]: "okIds f [] = {}"
  by (simp add: okIds_def)

lemma okIds_Cons:
  "okIds f (d # ds) = (if updateFails f (oid d) then okIds f ds else insert (oid d) (okIds f ds))"
  by (auto simp: okIds_def)

lemma counts_Cons:
  "okCount f (d # ds) = (if updateFails f (oid d) then okCount f ds else Suc (okCount f ds))"
  "failCount f (d # ds) = (if updateFails f (oid d) then Suc (failCount f ds) else failCount f ds)"
  "okCount f [] = 0" "failCount f [] = 0"
  by (simp_all add: okCount_def failCount_def)

lemma cancelMark_step:
  "map (cancelMark I) (map (\<lambda>x. if oid x = i then x\<lparr>orderStatus := Canceled, paymentStatus := Failed\<rparr> else x) xs)
     = map (cancelMark (insert i I)) xs"
  by (simp add: cancelMark_def)

lemma sweepLoop_result:
  "sweepLoop f ds s c e lg =
     (s\<lparr>orders := map (cancelMark (okIds f ds)) (orders s)\<rparr>,
      c + okCount f ds, e + failCount f ds, lg @ map (sweepEvent f) ds)"
proof (induction ds arbitrary: s c e lg)
  case Nil
  show ?case by (simp add: counts_Cons cancelMark_empty)
next
  case (Cons d ds)
  show ?case
  proof (cases "updateFails f (oid d)")
    case True
    then show ?thesis
      by (simp add: cancelOrder_shape Cons.IH counts_Cons okIds_Cons sweepEvent_def)
  next
    case False
    have "orders (setStatusById (oid d) Canceled Failed s)
          = map (\<lambda>x. if oid x = oid d then x\<lparr>orderStatus := Canceled, paymentStatus := Failed\<rparr> else x)
              (orders s)"
      by (simp add: setStatusById_def)
    then have "map (cancelMark (okIds f ds)) (orders (setStatusById (oid d) Canceled Failed s))
               = map (cancelMark (okIds f (d # ds))) (orders s)"
      using False by (simp only: cancelMark_step okIds_Cons if_False)
    then show ?thesis using False
      by (simp add: cancelOrder_shape Cons.IH counts_Cons sweepEvent_def setStatusById_def)
  qed
qed

lemma checkPendingOrders_result:
  "checkPendingOrders f tm t s =
     (if filter (overdue tm t) (orders s) = [] then (s, [])
      else (s\<lparr>orders := map (cancelMark (okIds f (filter (overdue tm t) (orders s)))) (orders s)\<rparr>,
            map (sweepEvent f) (filter (overdue tm t) (orders s)) @
              [AutoCancelSummary (length (filter (overdue tm t) (orders s)))
                 (okCount f (filter (overdue tm t) (orders s)))
                 (failCount f (filter (overdue tm t) (orders s)))]))"
  by (simp add: checkPendingOrders_def Let_def sweepLoop_result)

text \<open>
  Claim C8, as amended, on the Order collection and the audit log (what the sweep does to
  stock is left aside here).  A sweep selects exactly the orders with payment \<open>Pending\<close>,
  order status \<open>Pending\<close> or \<open>Processing\<close> and \<open>createdAt\<close> more than \<open>timeoutMinutes\<close>
  (30 by default) before now.  Each of them, in turn, is set to \<open>Canceled\<close> / \<open>Failed\<close>;
  when the update of one order fails the others are processed all the same, and an order
  that was not selected is left as it was.  Each selected order is logged with its
  outcome, and when at least one order was selected a summary with the three counts closes
  the log; a sweep that selects nothing logs nothing.
\<close>

theorem sweep_cancels_overdue_orders:
  "overdue tm t d =
     (paymentStatus d = PayPending \<and> (orderStatus d = Pending \<or> orderStatus d = Processing) \<and>
      createdAt d < t - tm * 60 * 1000)
   \<and> defaultTimeoutMinutes = 30
   \<and> orders (fst (checkPendingOrders f tm t s)) =
       map (cancelMark (okIds f (filter (overdue tm t) (orders s)))) (orders s)
   \<and> (\<forall>x \<in> set (orders s). overdue tm t x \<and> \<not> updateFails f (oid x) \<longrightarrow>
         x\<lparr>orderStatus := Canceled, paymentStatus := Failed\<rparr> \<in> set (orders (fst (checkPendingOrders f tm t s))))
   \<and> (\<forall>x \<in> set (orders s). oid x \<notin> oid ` {d \<in> set (orders s). overdue tm t d} \<longrightarrow>
         x \<in> set (orders (fst (checkPendingOrders f tm t s))))
   \<and> (filter (overdue tm t) (orders s) \<noteq> [] \<longrightarrow>
         snd (checkPendingOrders f tm t s) =
           map (sweepEvent f) (filter (overdue tm t) (orders s)) @
             [AutoCancelSummary (length (filter (overdue tm t) (orders s)))
                (okCount f (filter (overdue tm t) (orders s)))
                (failCount f (filter (overdue tm t) (orders s)))])
   \<and> (filter (overdue tm t) (orders s) = [] \<longrightarrow> snd (checkPendingOrders f tm t s) = [])"
proof -
  let ?cand = "filter (overdue tm t) (orders s)"
  have o: "orders (fst (checkPendingOrders f tm t s)) = map (cancelMark (okIds f ?cand)) (orders s)"
    by (simp add: checkPendingOrders_result cancelMark_empty)
  have c: "x\<lparr>orderStatus := Canceled, paymentStatus := Failed\<rparr> \<in> set (orders (fst (checkPendingOrders f tm t s)))"
    if "x \<in> set (orders s)" and "overdue tm t x \<and> \<not> updateFails f (oid x)" for x
  proof -
    have "oid x \<in> okIds f ?cand" using that by (auto simp: okIds_def)
    then have "cancelMark (okIds f ?cand) x = x\<lparr>orderStatus := Canceled, paymentStatus := Failed\<rparr>"
      by (simp add: cancelMark_def)
    then show ?thesis using that(1) by (simp add: o) force
  qed
  have u: "x \<in> set (orders (fst (checkPendingOrders f tm t s)))"
    if "x \<in> set (orders s)" and "oid x \<notin> oid ` {d \<in> set (orders s). overdue tm t d}" for x
  proof -
    have "oid x \<notin> okIds f ?cand" using that(2) by (auto simp: okIds_def)
    then have "cancelMark (okIds f ?cand) x = x" by (simp add: cancelMark_def)
    then show ?thesis using that(1) by (simp add: o) force
  qed
  show ?thesis
    using o c u by (simp add: overdue_def defaultTimeoutMinutes_def checkPendingOrders_result)
qed

theorem sweep_cancels_overdue_orders_witness:
  "snd (checkPendingOrders firstUpdateFails defaultTimeoutMinutes 3600000 staleShop) =
     [AutoCancelOrderFailed ''ORD-20250101-1'', OrderAutoCancelled ''ORD-20250101-2'',
      AutoCancelSummary 2 1 1]
   \<and> pendingOrder\<lparr>oid := 1, orderId := ''ORD-20250101-2'', orderStatus := Canceled, paymentStatus := Failed\<rparr>
       \<in> set (orders (fst (checkPendingOrders firstUpdateFails defaultTimeoutMinutes 3600000 staleShop)))
   \<and> razorpaidOrder\<lparr>oid := 2, orderId := ''ORD-20250101-3''\<rparr>
       \<in> set (orders (fst (checkPendingOrders firstUpdateFails defaultTimeoutMinutes 3600000 staleShop)))
   \<and> snd (checkPendingOrders noFaults defaultTimeoutMinutes 3600000 (shop\<lparr>orders := [settledOrder]\<rparr>))
       = []"
proof -
  let ?a = "pendingOrder"
  let ?b = "pendingOrder\<lparr>oid := 1, orderId := ''ORD-20250101-2''\<rparr>"
  let ?c = "razorpaidOrder\<lparr>oid := 2, orderId := ''ORD-20250101-3''\<rparr>"
  have os: "orders staleShop = [?a, ?b, ?c]" by (simp add: staleShop_def)
  have cand: "filter (overdue defaultTimeoutMinutes 3600000) (orders staleShop) = [?a, ?b]"
    by (simp add: staleShop_def overdue_def defaultTimeoutMinutes_def pendingOrder_def
          razorpaidOrder_def)
  have ids: "oid ?a = 0" "oid ?b = 1" "oid ?c = 2" "orderId ?a = ''ORD-20250101-1''"
    "orderId ?b = ''ORD-20250101-2''"
    by (simp_all add: pendingOrder_def razorpaidOrder_def)
  note th = sweep_cancels_overdue_orders [where f = firstUpdateFails and tm = defaultTimeoutMinutes
              and t = 3600000 and s = staleShop]
  have "snd (checkPendingOrders firstUpdateFails defaultTimeoutMinutes 3600000 staleShop) =
          map (sweepEvent firstUpdateFails) [?a, ?b] @
            [AutoCancelSummary (length [?a, ?b]) (okCount firstUpdateFails [?a, ?b])
               (failCount firstUpdateFails [?a, ?b])]"
    using th cand by simp
  then have lg: "snd (checkPendingOrders firstUpdateFails defaultTimeoutMinutes 3600000 staleShop) =
     [AutoCancelOrderFailed ''ORD-20250101-1'', OrderAutoCancelled ''ORD-20250101-2'',
      AutoCancelSummary 2 1 1]"
    by (simp add: sweepEvent_def okCount_def failCount_def firstUpdateFails_def ids)
  have "?b \<in> set (orders staleShop) \<and> overdue defaultTimeoutMinutes 3600000 ?b \<and>
        \<not> updateFails firstUpdateFails (oid ?b)"
    by (simp add: os overdue_def defaultTimeoutMinutes_def pendingOrder_def firstUpdateFails_def)
  with th have b: "?b\<lparr>orderStatus := Canceled, paymentStatus := Failed\<rparr>
       \<in> set (orders (fst (checkPendingOrders firstUpdateFails defaultTimeoutMinutes 3600000 staleShop)))"
    by blast
  have "{d \<in> set (orders staleShop). overdue defaultTimeoutMinutes 3600000 d} = set [?a, ?b]"
    by (simp only: cand [symmetric] set_filter)
  then have "?c \<in> set (orders staleShop) \<and>
        oid ?c \<notin> oid ` {d \<in> set (orders staleShop). overdue defaultTimeoutMinutes 3600000 d}"
    by (simp add: staleShop_def pendingOrder_def razorpaidOrder_def)
  with th have c: "?c \<in> set (orders (fst (checkPendingOrders firstUpdateFails defaultTimeoutMinutes 3600000 staleShop)))"
    by blast
  have "filter (overdue defaultTimeoutMinutes 3600000) (orders (shop\<lparr>orders := [settledOrder]\<rparr>)) = []"
    by (simp add: overdue_def settledOrder_def pendingOrder_def)
  with sweep_cancels_overdue_orders [where f = noFaults and tm = defaultTimeoutMinutes and t = 3600000
         and s = "shop\<lparr>orders := [settledOrder]\<rparr>"]
  have e: "snd (checkPendingOrders noFaults defaultTimeoutMinutes 3600000 (shop\<lparr>orders := [settledOrder]\<rparr>))
       = []"
    by blast
  from lg b c e show ?thesis by simp
qed

text \<open>The claim as written fails for a sweep that finds nothing to cancel: it returns
  before the summary is logged.\<close>

theorem sweep_summary_counterexample:
  "snd (checkPendingOrders noFaults defaultTimeoutMinutes 3600000 (shop\<lparr>orders := [settledOrder]\<rparr>)) = []"
  by (simp add: checkPendingOrders_def overdue_def settledOrder_def pendingOrder_def Let_def)

end
